theory Spec2Isabelle
  imports Complex_Main "HOL-Library.Sublist"
begin

section \<open>Waze travel time sensor: the data model\<close>

text \<open>
  The development follows \<^verbatim>\<open>homeassistant/components/waze_travel_time/sensor.py\<close>.
  Python values are modelled as follows.
  \<^item> \<^verbatim>\<open>str\<close> is \<^typ>\<open>string\<close>: a string is the list of the bytes of its UTF-8
    encoding, in which one string occurs in another exactly when it does so character
    by character. \<^verbatim>\<open>str.lower\<close> and \<^verbatim>\<open>str.upper\<close> are written out for strings of
    ASCII characters; on any other string they follow the Unicode character database,
    which is a parameter of the model.
  \<^item> \<^verbatim>\<open>float\<close> is \<^typ>\<open>real\<close>: durations and distances are exact numbers, rounding
    errors of the machine arithmetic are not modelled.
  \<^item> \<^verbatim>\<open>None\<close> is \<^const>\<open>None\<close> of an option type.
  \<^item> The mapping returned by the routing engine is a Python \<^verbatim>\<open>dict\<close>, which iterates in
    insertion order: it is an association list of route name and (duration, distance).
  \<^item> Logging, the call to the routing engine and an exception that leaves a method are
    effects; every method returns a record of the object after the call, the log records
    written, the routing calls made and the exception that escaped, if any.
\<close>

subsection \<open>Strings\<close>

definition ascii_uppercase :: string where
  "ascii_uppercase = ''ABCDEFGHIJKLMNOPQRSTUVWXYZ''"

definition ascii_lowercase :: string where
  "ascii_lowercase = ''abcdefghijklmnopqrstuvwxyz''"

definition lower_char :: "char \<Rightarrow> char" where
  "lower_char c =
     (case map_of (zip ascii_uppercase ascii_lowercase) c of Some l \<Rightarrow> l | None \<Rightarrow> c)"

definition upper_char :: "char \<Rightarrow> char" where
  "upper_char c =
     (case map_of (zip ascii_lowercase ascii_uppercase) c of Some u \<Rightarrow> u | None \<Rightarrow> c)"

text \<open>\<^verbatim>\<open>s.isascii()\<close>: every byte is below 128.\<close>

definition is_ascii :: "string \<Rightarrow> bool" where
  "is_ascii s = list_all (\<lambda>c. \<not> digit7 c) s"

text \<open>
  The case mappings of the Unicode character database, as Python applies them to a whole
  string (they are not character by character: a capital sigma is lowered by its
  position in the word). The database is not part of the sources; the model takes it as
  a parameter and consults it only for a string that is not ASCII.
\<close>

record unicode_case =
  unicode_lower :: "string \<Rightarrow> string"
  unicode_upper :: "string \<Rightarrow> string"

text \<open>
  \<^verbatim>\<open>s.lower()\<close> and \<^verbatim>\<open>s.upper()\<close>: on an ASCII string the letters \<^verbatim>\<open>A\<close> to \<^verbatim>\<open>Z\<close>
  (\<^verbatim>\<open>a\<close> to \<^verbatim>\<open>z\<close>) are replaced and every other character is kept.
\<close>

definition lower :: "unicode_case \<Rightarrow> string \<Rightarrow> string" where
  "lower ucd s = (if is_ascii s then map lower_char s else unicode_lower ucd s)"

definition upper :: "unicode_case \<Rightarrow> string \<Rightarrow> string" where
  "upper ucd s = (if is_ascii s then map upper_char s else unicode_upper ucd s)"

text \<open>\<^verbatim>\<open>a in b\<close> on strings: \<open>a\<close> occurs in \<open>b\<close> as a contiguous run of characters.\<close>

fun str_in :: "string \<Rightarrow> string \<Rightarrow> bool" where
  "str_in a [] = (a = [])"
| "str_in a (c # cs) = (prefix a (c # cs) \<or> str_in a cs)"




subsection \<open>Configuration and the routing engine\<close>

text \<open>
  \<^verbatim>\<open>config_entry.options\<close>: a dictionary. The two filters are read with \<^verbatim>\<open>.get\<close>
  (a missing key reads as \<^verbatim>\<open>None\<close>), the other six with a subscript (a missing key
  raises \<^verbatim>\<open>KeyError\<close>), so every entry is optional in the model.
\<close>

record config_options =
  CONF_INCL_FILTER :: "string option"
  CONF_EXCL_FILTER :: "string option"
  CONF_REALTIME :: "bool option"
  CONF_VEHICLE_TYPE :: "string option"
  CONF_AVOID_TOLL_ROADS :: "bool option"
  CONF_AVOID_SUBSCRIPTION_ROADS :: "bool option"
  CONF_AVOID_FERRIES :: "bool option"
  CONF_UNITS :: "string option"

text \<open>
  Modelled from the spec: \<^verbatim>\<open>homeassistant.const\<close> is not among the sources; the spec
  gives the value of the units option that selects miles as \<^verbatim>\<open>imperial\<close>.
\<close>

definition CONF_UNIT_SYSTEM_IMPERIAL :: string where
  "CONF_UNIT_SYSTEM_IMPERIAL = ''imperial''"

text \<open>
  The arguments of \<^verbatim>\<open>WazeRouteCalculator(...)\<close> followed by
  \<^verbatim>\<open>calc_all_routes_info(real_time=...)\<close>: one call to the routing engine.
\<close>

record routing_call =
  start_address :: string
  end_address :: string
  wrc_region :: string
  wrc_vehicle_type :: string
  wrc_avoid_toll_roads :: bool
  wrc_avoid_subscription_roads :: bool
  wrc_avoid_ferries :: bool
  real_time :: bool

type_synonym routes = "(string \<times> real \<times> real) list"

datatype level = DEBUG | WARNING | ERROR

type_synonym log_record = "level \<times> string"

datatype py_exception =
    WRCError string
  | KeyError
  | AttributeError
  | OtherException string

text \<open>The routing engine answers a call with the mapping of routes or raises.\<close>

datatype response = Returns routes | Raises py_exception

type_synonym engine = "routing_call \<Rightarrow> response"

subsection \<open>Results of a method call\<close>

text \<open>
  What a method call leaves behind: the object after the call (Python mutates it in
  place, so it is there also when an exception escapes), the records logged, the calls
  made to the routing engine, and the exception that escaped the method.
\<close>

record 'a result =
  state :: 'a
  logged :: "log_record list"
  calls :: "routing_call list"
  raised :: "py_exception option"

section \<open>WazeTravelTimeData\<close>

record WazeTravelTimeData =
  origin :: "string option"
  destination :: "string option"
  region :: string
  config_entry :: config_options
  duration :: "real option"
  distance :: "real option"
  route :: "string option"

definition WazeTravelTimeData_init ::
  "string option \<Rightarrow> string option \<Rightarrow> string \<Rightarrow> config_options \<Rightarrow> WazeTravelTimeData" where
  "WazeTravelTimeData_init origin' destination' region' config_entry' =
     \<lparr>origin = origin', destination = destination', region = region',
      config_entry = config_entry', duration = None, distance = None, route = None\<rparr>"

text \<open>
  Lines 217 to 225 of \<^verbatim>\<open>update\<close>: the six subscripts on the options, in the order of
  the source, outside the \<^verbatim>\<open>try\<close>; the vehicle type is upper-cased, with the empty
  string standing for a car.
\<close>

definition read_options ::
  "unicode_case \<Rightarrow> config_options
     \<Rightarrow> py_exception + (bool \<times> string \<times> bool \<times> bool \<times> bool \<times> string)" where
  "read_options ucd options =
     (case CONF_REALTIME options of
        None \<Rightarrow> Inl KeyError
      | Some realtime \<Rightarrow>
     (case CONF_VEHICLE_TYPE options of
        None \<Rightarrow> Inl KeyError
      | Some vehicle_type \<Rightarrow>
     (let vehicle_type =
            (if upper ucd vehicle_type = ''CAR'' then [] else upper ucd vehicle_type)
      in
     (case CONF_AVOID_TOLL_ROADS options of
        None \<Rightarrow> Inl KeyError
      | Some avoid_toll_roads \<Rightarrow>
     (case CONF_AVOID_SUBSCRIPTION_ROADS options of
        None \<Rightarrow> Inl KeyError
      | Some avoid_subscription_roads \<Rightarrow>
     (case CONF_AVOID_FERRIES options of
        None \<Rightarrow> Inl KeyError
      | Some avoid_ferries \<Rightarrow>
     (case CONF_UNITS options of
        None \<Rightarrow> Inl KeyError
      | Some units \<Rightarrow>
          Inr (realtime, vehicle_type, avoid_toll_roads, avoid_subscription_roads,
               avoid_ferries, units))))))))"

text \<open>
  Lines 239 to 250: the two dictionary comprehensions. Each keeps the order of the
  entries it keeps.
\<close>

definition filter_routes ::
  "unicode_case \<Rightarrow> string option \<Rightarrow> string option \<Rightarrow> routes \<Rightarrow> routes" where
  "filter_routes ucd incl_filter excl_filter routes =
     (let routes = (case incl_filter of None \<Rightarrow> routes
                    | Some f \<Rightarrow> filter (\<lambda>(k, v). str_in (lower ucd f) (lower ucd k)) routes);
          routes = (case excl_filter of None \<Rightarrow> routes
                    | Some f \<Rightarrow> filter (\<lambda>(k, v). \<not> str_in (lower ucd f) (lower ucd k)) routes)
      in routes)"

text \<open>
  Lines 251 to 263, on the filtered mapping: the first key, the subscript on it (inside
  the \<^verbatim>\<open>try\<close>, so a \<^verbatim>\<open>KeyError\<close> would be caught and logged), the conversion and the
  three assignments.
\<close>

definition select_and_commit ::
  "string \<Rightarrow> routes \<Rightarrow> WazeTravelTimeData \<Rightarrow> WazeTravelTimeData \<times> log_record list" where
  "select_and_commit units routes self =
     (case routes of
        [] \<Rightarrow> (self, [(WARNING, ''No routes found'')])
      | (route', _) # _ \<Rightarrow>
          (case map_of routes route' of
             None \<Rightarrow> (self, [(ERROR, ''Error retrieving data from server'')])
           | Some (duration', distance') \<Rightarrow>
               (self\<lparr>duration := Some duration',
                     distance := Some (if units = CONF_UNIT_SYSTEM_IMPERIAL
                                       then distance' / 1.609 else distance'),
                     route := Some route'\<rparr>, [])))"

text \<open>
  Lines 227 to 269, the \<^verbatim>\<open>try\<close> statement: the call to the routing engine, the filters,
  the selection and the two handlers. An exception that is neither a \<^verbatim>\<open>WRCError\<close> nor a
  \<^verbatim>\<open>KeyError\<close> leaves the method.
\<close>

definition try_block ::
  "unicode_case \<Rightarrow> engine \<Rightarrow> routing_call \<Rightarrow> string option \<Rightarrow> string option
     \<Rightarrow> string \<Rightarrow> WazeTravelTimeData \<Rightarrow> WazeTravelTimeData result" where
  "try_block ucd engine params incl_filter excl_filter units self =
     (case engine params of
        Returns routes \<Rightarrow>
          (let (self', records) =
                 select_and_commit units (filter_routes ucd incl_filter excl_filter routes) self
           in \<lparr>state = self', logged = records, calls = [params], raised = None\<rparr>)
      | Raises (WRCError exp') \<Rightarrow>
          \<lparr>state = self, logged = [(WARNING, ''Error on retrieving data: '' @ exp')],
           calls = [params], raised = None\<rparr>
      | Raises KeyError \<Rightarrow>
          \<lparr>state = self, logged = [(ERROR, ''Error retrieving data from server'')],
           calls = [params], raised = None\<rparr>
      | Raises e \<Rightarrow>
          \<lparr>state = self, logged = [], calls = [params], raised = Some e\<rparr>)"

text \<open>
  \<^verbatim>\<open>update\<close>: the guard of line 213, the options, the arguments of the call and the
  \<^verbatim>\<open>try\<close> statement.
\<close>

definition WazeTravelTimeData_update ::
  "unicode_case \<Rightarrow> engine \<Rightarrow> WazeTravelTimeData \<Rightarrow> WazeTravelTimeData result" where
  "WazeTravelTimeData_update ucd engine self =
     (case (origin self, destination self) of
        (Some origin', Some destination') \<Rightarrow>
          (let incl_filter = CONF_INCL_FILTER (config_entry self);
               excl_filter = CONF_EXCL_FILTER (config_entry self)
           in case read_options ucd (config_entry self) of
                Inl e \<Rightarrow> \<lparr>state = self, logged = [], calls = [], raised = Some e\<rparr>
              | Inr (realtime, vehicle_type, avoid_toll_roads, avoid_subscription_roads,
                     avoid_ferries, units) \<Rightarrow>
                  try_block ucd engine
                    \<lparr>start_address = origin', end_address = destination',
                     wrc_region = region self, wrc_vehicle_type = vehicle_type,
                     wrc_avoid_toll_roads = avoid_toll_roads,
                     wrc_avoid_subscription_roads = avoid_subscription_roads,
                     wrc_avoid_ferries = avoid_ferries, real_time = realtime\<rparr>
                    incl_filter excl_filter units self)
      | _ \<Rightarrow> \<lparr>state = self, logged = [], calls = [], raised = None\<rparr>)"

section \<open>WazeTravelTime, the sensor entity\<close>

text \<open>
  The part of the host the sensor reads: \<^verbatim>\<open>hass.states.get(entity_id)\<close> gives the state
  object of an entity or \<^verbatim>\<open>None\<close>; a state object has its state string and, for an
  entity with location attributes, its coordinates as \<^verbatim>\<open>"lat,long"\<close>.
\<close>

record entity_state =
  state_string :: string
  location :: "string option"

record HomeAssistant =
  states :: "string \<Rightarrow> entity_state option"

text \<open>
  Modelled from the spec: \<^verbatim>\<open>homeassistant.helpers.location.find_coordinates\<close> is not
  among the sources. The spec has the resolver use the coordinates of the entity when the
  host exposes them; the fall back to the state string is written out in \<^verbatim>\<open>update\<close>
  below. The sensor takes the function as a parameter, so that what is proved of it with
  the parameter free holds for any such function.
\<close>

definition find_coordinates :: "HomeAssistant \<Rightarrow> string \<Rightarrow> string option" where
  "find_coordinates hass entity_id =
     (case states hass entity_id of None \<Rightarrow> None | Some st \<Rightarrow> location st)"

record WazeTravelTime =
  attr_unique_id :: string
  waze_data :: WazeTravelTimeData
  attr_name :: string
  attr_icon :: string
  origin_entity_id :: "string option"
  destination_entity_id :: "string option"

text \<open>
  \<^verbatim>\<open>__init__\<close>. The parameter \<open>fullmatch\<close> is
  \<^verbatim>\<open>re.compile(ENTITY_ID_PATTERN).fullmatch\<close>; the pattern is a constant of a module
  that is not among the sources. The field \<^verbatim>\<open>_state\<close>, which nothing reads, is left out.
\<close>

definition WazeTravelTime_init ::
  "(string \<Rightarrow> bool) \<Rightarrow> string \<Rightarrow> string \<Rightarrow> string \<Rightarrow> string \<Rightarrow> WazeTravelTimeData
     \<Rightarrow> WazeTravelTime result" where
  "WazeTravelTime_init fullmatch unique_id name origin' destination' waze_data' =
     (let (origin_id, data1, log1) =
            (if fullmatch origin'
             then (Some origin', waze_data',
                   [(DEBUG, ''Found origin source entity '' @ origin')])
             else (None, waze_data'\<lparr>origin := Some origin'\<rparr>, []));
          (destination_id, data2, log2) =
            (if fullmatch destination'
             then (Some destination', data1,
                   [(DEBUG, ''Found destination source entity '' @ destination')])
             else (None, data1\<lparr>destination := Some destination'\<rparr>, []))
      in \<lparr>state = \<lparr>attr_unique_id = unique_id, waze_data = data2, attr_name = name,
                    attr_icon = ''mdi:car'', origin_entity_id = origin_id,
                    destination_entity_id = destination_id\<rparr>,
          logged = log1 @ log2, calls = [], raised = None\<rparr>)"

text \<open>
  Python's \<^verbatim>\<open>round(x)\<close> on a float: the nearest integer, a tie going to the even one.
\<close>

definition py_round :: "real \<Rightarrow> int" where
  "py_round x =
     (let f = \<lfloor>x\<rfloor>; r = x - of_int f
      in if r < 1 / 2 then f
         else if 1 / 2 < r then f + 1
         else if even f then f else f + 1)"

definition native_value :: "WazeTravelTime \<Rightarrow> int option" where
  "native_value self =
     (case duration (waze_data self) of
        Some d \<Rightarrow> Some (py_round d)
      | None \<Rightarrow> None)"

record state_attributes =
  ATTR_ATTRIBUTION :: string
  attribute_duration :: "real option"
  attribute_distance :: "real option"
  attribute_route :: "string option"
  attribute_origin :: "string option"
  attribute_destination :: "string option"

definition extra_state_attributes :: "WazeTravelTime \<Rightarrow> state_attributes option" where
  "extra_state_attributes self =
     (if duration (waze_data self) = None then None
      else Some \<lparr>ATTR_ATTRIBUTION = ''Powered by Waze'',
                 attribute_duration = duration (waze_data self),
                 attribute_distance = distance (waze_data self),
                 attribute_route = route (waze_data self),
                 attribute_origin = origin (waze_data self),
                 attribute_destination = destination (waze_data self)\<rparr>)"

text \<open>
  Lines 176 to 184 and, word for word, 186 to 194 of the sensor's \<^verbatim>\<open>update\<close>: without a
  source entity the location stays as it is; with one it becomes what
  \<^verbatim>\<open>find_coordinates\<close> gives, or else the \<^verbatim>\<open>.state\<close> of \<^verbatim>\<open>hass.states.get(entity_id)\<close>,
  which raises \<^verbatim>\<open>AttributeError\<close> when that is \<^verbatim>\<open>None\<close>.
\<close>

definition resolve_location ::
  "(HomeAssistant \<Rightarrow> string \<Rightarrow> string option) \<Rightarrow> HomeAssistant \<Rightarrow> string option
     \<Rightarrow> string option \<Rightarrow> py_exception + string option" where
  "resolve_location fc hass entity_id current =
     (case entity_id of
        None \<Rightarrow> Inr current
      | Some eid \<Rightarrow>
          (case fc hass eid of
             Some coordinates \<Rightarrow> Inr (Some coordinates)
           | None \<Rightarrow>
               (case states hass eid of
                  None \<Rightarrow> Inl AttributeError
                | Some st \<Rightarrow> Inr (Some (state_string st)))))"

definition WazeTravelTime_update ::
  "unicode_case \<Rightarrow> (HomeAssistant \<Rightarrow> string \<Rightarrow> string option) \<Rightarrow> HomeAssistant
     \<Rightarrow> engine \<Rightarrow> WazeTravelTime \<Rightarrow> WazeTravelTime result" where
  "WazeTravelTime_update ucd fc hass engine self =
     (let log0 = [(DEBUG, ''Fetching Route for '' @ attr_name self)]
      in case resolve_location fc hass (origin_entity_id self) (origin (waze_data self)) of
           Inl e \<Rightarrow> \<lparr>state = self, logged = log0, calls = [], raised = Some e\<rparr>
         | Inr origin' \<Rightarrow>
             (let data1 = (waze_data self)\<lparr>origin := origin'\<rparr>
              in case resolve_location fc hass (destination_entity_id self)
                        (destination data1) of
                   Inl e \<Rightarrow> \<lparr>state = self\<lparr>waze_data := data1\<rparr>, logged = log0,
                              calls = [], raised = Some e\<rparr>
                 | Inr destination' \<Rightarrow>
                     (let data2 = data1\<lparr>destination := destination'\<rparr>;
                          r = WazeTravelTimeData_update ucd engine data2
                      in \<lparr>state = self\<lparr>waze_data := state r\<rparr>,
                          logged = log0 @ logged r, calls = calls r,
                          raised = raised r\<rparr>)))"

section \<open>Refresh cycles\<close>

text \<open>
  The host runs one refresh at a time. Between two calls of \<^verbatim>\<open>WazeTravelTimeData.update\<close>
  the sensor may write the origin and the destination and the host may change the
  options; a cycle gives the three as they are at the call and the routing engine as it
  answers then. The duration, distance and route are written by \<^verbatim>\<open>update\<close> alone.
\<close>

type_synonym cycle = "string option \<times> string option \<times> config_options \<times> engine"

fun refresh_results ::
  "unicode_case \<Rightarrow> WazeTravelTimeData \<Rightarrow> cycle list \<Rightarrow> WazeTravelTimeData result list" where
  "refresh_results ucd self [] = []"
| "refresh_results ucd self ((origin', destination', options, engine) # cycles) =
     (let r = WazeTravelTimeData_update ucd engine
                (self\<lparr>origin := origin', destination := destination',
                       config_entry := options\<rparr>)
      in r # refresh_results ucd (state r) cycles)"

fun refresh_cycles ::
  "unicode_case \<Rightarrow> WazeTravelTimeData \<Rightarrow> cycle list \<Rightarrow> WazeTravelTimeData" where
  "refresh_cycles ucd self [] = self"
| "refresh_cycles ucd self ((origin', destination', options, engine) # cycles) =
     refresh_cycles ucd
       (state (WazeTravelTimeData_update ucd engine
                 (self\<lparr>origin := origin', destination := destination',
                        config_entry := options\<rparr>)))
       cycles"

text \<open>
  A refresh that reached the three assignments: it called the engine, logged nothing and
  raised nothing.
\<close>

definition committed :: "'a result \<Rightarrow> bool" where
  "committed r = (calls r \<noteq> [] \<and> logged r = [] \<and> raised r = None)"

text \<open>The three fields of a reading, together.\<close>

definition reading :: "WazeTravelTimeData \<Rightarrow> real option \<times> real option \<times> string option" where
  "reading self = (duration self, distance self, route self)"

definition all_or_nothing :: "WazeTravelTimeData \<Rightarrow> bool" where
  "all_or_nothing self =
     ((duration self = None \<and> distance self = None \<and> route self = None) \<or>
      (duration self \<noteq> None \<and> distance self \<noteq> None \<and> route self \<noteq> None))"

section \<open>The scenarios of the specification\<close>

text \<open>
  The mapping of the scenarios: \<^verbatim>\<open>{"Route A": (10.0, 12.0), "Route B": (8.0, 9.0)}\<close>, a
  routing engine that answers every call with it, and a data object with both locations
  set and every option present (no filters, metric units). Every string of the scenarios
  is ASCII, so the character database is never consulted there; \<open>scenario_ucd\<close> stands
  in for it.
\<close>

definition scenario_ucd :: unicode_case where
  "scenario_ucd = \<lparr>unicode_lower = (\<lambda>s. s), unicode_upper = (\<lambda>s. s)\<rparr>"

definition scenario_routes :: routes where
  "scenario_routes = [(''Route A'', 10, 12), (''Route B'', 8, 9)]"

definition scenario_engine :: engine where
  "scenario_engine params = Returns scenario_routes"

definition scenario_options :: config_options where
  "scenario_options =
     \<lparr>CONF_INCL_FILTER = None, CONF_EXCL_FILTER = None, CONF_REALTIME = Some True,
      CONF_VEHICLE_TYPE = Some ''car'', CONF_AVOID_TOLL_ROADS = Some False,
      CONF_AVOID_SUBSCRIPTION_ROADS = Some False, CONF_AVOID_FERRIES = Some False,
      CONF_UNITS = Some ''metric''\<rparr>"

definition scenario_data :: WazeTravelTimeData where
  "scenario_data =
     WazeTravelTimeData_init (Some ''52.37,4.89'') (Some ''Station Road 1'') ''EU''
       scenario_options"

definition scenario_params :: routing_call where
  "scenario_params =
     \<lparr>start_address = ''52.37,4.89'', end_address = ''Station Road 1'', wrc_region = ''EU'',
      wrc_vehicle_type = [], wrc_avoid_toll_roads = False,
      wrc_avoid_subscription_roads = False, wrc_avoid_ferries = False, real_time = True\<rparr>"

text \<open>The data object of the scenarios with other filters and units.\<close>

definition scenario_with :: "string option \<Rightarrow> string option \<Rightarrow> string \<Rightarrow> WazeTravelTimeData" where
  "scenario_with incl_filter excl_filter units =
     scenario_data\<lparr>config_entry :=
       scenario_options\<lparr>CONF_INCL_FILTER := incl_filter, CONF_EXCL_FILTER := excl_filter,
                        CONF_UNITS := Some units\<rparr>\<rparr>"

text \<open>Routing engines that fail: out of quota, and an answer without the expected keys.\<close>

definition failing_engine :: engine where
  "failing_engine params = Raises (WRCError ''empty response'')"

definition malformed_engine :: engine where
  "malformed_engine params = Raises KeyError"

text \<open>
  A run of refresh cycles on a new data object: a failing call, an absent origin, a
  commit, a filter that leaves nothing, a malformed answer.
\<close>

definition scenario_cycles :: "cycle list" where
  "scenario_cycles =
     [(Some ''52.37,4.89'', Some ''Station Road 1'', scenario_options, failing_engine),
      (None, Some ''Station Road 1'', scenario_options, scenario_engine),
      (Some ''52.37,4.89'', Some ''Station Road 1'', scenario_options, scenario_engine),
      (Some ''52.37,4.89'', Some ''Station Road 1'',
       scenario_options\<lparr>CONF_EXCL_FILTER := Some ''ROUTE''\<rparr>, scenario_engine),
      (Some ''52.37,4.89'', Some ''Station Road 1'', scenario_options, malformed_engine)]"

definition empty_exclude_cycle :: cycle where
  "empty_exclude_cycle =
     (Some ''52.37,4.89'', Some ''Station Road 1'',
      scenario_options\<lparr>CONF_EXCL_FILTER := Some []\<rparr>, scenario_engine)"

text \<open>
  Scenario 5: a sensor whose origin is the entity \<^verbatim>\<open>device_tracker.phone\<close>, as
  \<^verbatim>\<open>async_setup_entry\<close> and \<^verbatim>\<open>__init__\<close> build it, and a host in which no entity has a
  state.
\<close>

definition tracker_sensor :: WazeTravelTime where
  "tracker_sensor =
     \<lparr>attr_unique_id = ''entry'',
      waze_data = (WazeTravelTimeData_init None None ''EU'' scenario_options)
                    \<lparr>destination := Some ''Station Road 1''\<rparr>,
      attr_name = ''Waze Travel Time'', attr_icon = ''mdi:car'',
      origin_entity_id = Some ''device_tracker.phone'', destination_entity_id = None\<rparr>"

definition empty_hass :: HomeAssistant where
  "empty_hass = \<lparr>states = Map.empty\<rparr>"

section \<open>Basic facts\<close>

lemma str_in_sublist: "str_in a b = sublist a b"
  by (induction b) (auto simp: sublist_Cons_right)

lemma update_noop:
  "origin self = None \<or> destination self = None \<Longrightarrow>
   WazeTravelTimeData_update ucd engine self = \<lparr>state = self, logged = [], calls = [], raised = None\<rparr>"
  by (auto simp: WazeTravelTimeData_update_def split: option.splits)

lemma select_and_commit_Nil:
  "select_and_commit units [] self = (self, [(WARNING, ''No routes found'')])"
  by (simp add: select_and_commit_def)

lemma select_and_commit_Cons:
  "select_and_commit units ((k, d, m) # rest) self =
     (self\<lparr>duration := Some d,
           distance := Some (if units = CONF_UNIT_SYSTEM_IMPERIAL then m / 1.609 else m),
           route := Some k\<rparr>, [])"
  by (simp add: select_and_commit_def)

lemma read_options_units:
  "read_options ucd opts = Inr (rt, vt, a1, a2, a3, units) \<Longrightarrow> CONF_UNITS opts = Some units"
  by (auto simp: read_options_def Let_def split: option.splits)

lemma calls_try_block: "calls (try_block ucd engine params i e u self) = [params]"
  by (simp add: try_block_def split: response.splits py_exception.splits prod.splits)

lemma try_block_WRCError:
  "engine params = Raises (WRCError msg) \<Longrightarrow>
   try_block ucd engine params i e u self =
     \<lparr>state = self, logged = [(WARNING, ''Error on retrieving data: '' @ msg)],
      calls = [params], raised = None\<rparr>"
  by (simp add: try_block_def)

lemma try_block_KeyError:
  "engine params = Raises KeyError \<Longrightarrow>
   try_block ucd engine params i e u self =
     \<lparr>state = self, logged = [(ERROR, ''Error retrieving data from server'')],
      calls = [params], raised = None\<rparr>"
  by (simp add: try_block_def)

lemma try_block_no_routes:
  "engine params = Returns routes \<Longrightarrow> filter_routes ucd i e routes = [] \<Longrightarrow>
   try_block ucd engine params i e u self =
     \<lparr>state = self, logged = [(WARNING, ''No routes found'')],
      calls = [params], raised = None\<rparr>"
  by (simp add: try_block_def select_and_commit_Nil)

lemma try_block_commit:
  "engine params = Returns routes \<Longrightarrow> filter_routes ucd i e routes = (k, d, m) # rest \<Longrightarrow>
   try_block ucd engine params i e u self =
     \<lparr>state = self\<lparr>duration := Some d,
           distance := Some (if u = CONF_UNIT_SYSTEM_IMPERIAL then m / 1.609 else m),
           route := Some k\<rparr>, logged = [],
      calls = [params], raised = None\<rparr>"
  by (simp add: try_block_def select_and_commit_Cons)

lemma update_called:
  assumes "calls (WazeTravelTimeData_update ucd engine self) = [params]"
  obtains units where
    "CONF_UNITS (config_entry self) = Some units"
    "WazeTravelTimeData_update ucd engine self =
       try_block ucd engine params (CONF_INCL_FILTER (config_entry self))
         (CONF_EXCL_FILTER (config_entry self)) units self"
proof (cases "origin self")
  case None
  with assms show ?thesis by (simp add: update_noop)
next
  case og: (Some og)
  show ?thesis
  proof (cases "destination self")
    case None
    with assms show ?thesis by (simp add: update_noop)
  next
    case ds: (Some ds)
    show ?thesis
    proof (cases "read_options ucd (config_entry self)")
      case (Inl e)
      with assms og ds show ?thesis by (simp add: WazeTravelTimeData_update_def)
    next
      case (Inr t)
      obtain rt vt a1 a2 a3 units where t: "t = (rt, vt, a1, a2, a3, units)"
        by (cases t) auto
      from Inr t og ds have u: "WazeTravelTimeData_update ucd engine self =
         try_block ucd engine \<lparr>start_address = og, end_address = ds,
                     wrc_region = region self, wrc_vehicle_type = vt,
                     wrc_avoid_toll_roads = a1,
                     wrc_avoid_subscription_roads = a2,
                     wrc_avoid_ferries = a3, real_time = rt\<rparr>
           (CONF_INCL_FILTER (config_entry self))
         (CONF_EXCL_FILTER (config_entry self)) units self"
        by (simp add: WazeTravelTimeData_update_def)
      with assms have "params = \<lparr>start_address = og, end_address = ds,
                     wrc_region = region self, wrc_vehicle_type = vt,
                     wrc_avoid_toll_roads = a1,
                     wrc_avoid_subscription_roads = a2,
                     wrc_avoid_ferries = a3, real_time = rt\<rparr>"
        by (simp add: calls_try_block)
      with u that[of units] read_options_units[of ucd "config_entry self" rt vt a1 a2 a3 units] Inr t
      show ?thesis by simp
    qed
  qed
qed

lemma calls_update_cases:
  "calls (WazeTravelTimeData_update ucd engine self) = [] \<or>
   (\<exists>params. calls (WazeTravelTimeData_update ucd engine self) = [params])"
  by (auto simp: WazeTravelTimeData_update_def calls_try_block
           split: option.splits sum.splits prod.splits)

lemma read_options_scenario:
  "read_options ucd scenario_options = Inr (True, [], False, False, False, ''metric'')"
  by (simp add: read_options_def scenario_options_def upper_def is_ascii_def upper_char_def
        ascii_lowercase_def ascii_uppercase_def)

lemma scenario_data_fields:
  "origin scenario_data = Some ''52.37,4.89''"
  "destination scenario_data = Some ''Station Road 1''"
  "region scenario_data = ''EU''"
  "config_entry scenario_data = scenario_options"
  "duration scenario_data = None" "distance scenario_data = None" "route scenario_data = None"
  by (simp_all add: scenario_data_def WazeTravelTimeData_init_def)

lemma scenario_options_filters:
  "CONF_INCL_FILTER scenario_options = None" "CONF_EXCL_FILTER scenario_options = None"
  by (simp_all add: scenario_options_def)

lemma update_scenario_data:
  "WazeTravelTimeData_update ucd engine scenario_data =
     try_block ucd engine scenario_params None None ''metric'' scenario_data"
  by (simp add: WazeTravelTimeData_update_def scenario_data_fields read_options_scenario
        scenario_options_filters scenario_params_def)

lemma lower_Nil: "lower ucd [] = []"
  by (simp add: lower_def is_ascii_def)

lemma str_in_Nil: "str_in [] b"
  by (cases b) simp_all

lemma committedE:
  assumes "committed (WazeTravelTimeData_update ucd engine self)"
  obtains params routes k d m rest units where
    "calls (WazeTravelTimeData_update ucd engine self) = [params]"
    "engine params = Returns routes"
    "filter_routes ucd (CONF_INCL_FILTER (config_entry self))
       (CONF_EXCL_FILTER (config_entry self)) routes = (k, d, m) # rest"
    "CONF_UNITS (config_entry self) = Some units"
    "WazeTravelTimeData_update ucd engine self =
       \<lparr>state = self\<lparr>duration := Some d,
           distance := Some (if units = CONF_UNIT_SYSTEM_IMPERIAL then m / 1.609 else m),
           route := Some k\<rparr>, logged = [], calls = [params], raised = None\<rparr>"
proof -
  let ?r = "WazeTravelTimeData_update ucd engine self"
  let ?i = "CONF_INCL_FILTER (config_entry self)"
  let ?e = "CONF_EXCL_FILTER (config_entry self)"
  from assms have c: "calls ?r \<noteq> []" "logged ?r = []" "raised ?r = None"
    by (simp_all add: committed_def)
  with calls_update_cases [of ucd engine self] obtain params where p: "calls ?r = [params]"
    by auto
  then obtain units where u: "CONF_UNITS (config_entry self) = Some units"
    and t: "?r = try_block ucd engine params ?i ?e units self"
    by (rule update_called)
  show ?thesis
  proof (cases "engine params")
    case (Returns routes)
    show ?thesis
    proof (cases "filter_routes ucd ?i ?e routes")
      case Nil
      with Returns t c(2) show ?thesis by (simp add: try_block_no_routes)
    next
      case (Cons kv rest)
      obtain k d m where kv: "kv = (k, d, m)" by (cases kv) auto
      with Cons Returns t have "?r =
        \<lparr>state = self\<lparr>duration := Some d,
           distance := Some (if units = CONF_UNIT_SYSTEM_IMPERIAL then m / 1.609 else m),
           route := Some k\<rparr>, logged = [], calls = [params], raised = None\<rparr>"
        by (simp add: try_block_commit)
      with that [of params routes k d m rest units] p Returns Cons kv u show ?thesis
        by simp
    qed
  next
    case (Raises e)
    with t c(2,3) show ?thesis
      by (cases e) (simp_all add: try_block_def)
  qed
qed

lemma filter_routes_sublist:
  "filter_routes ucd i e routes =
     filter (\<lambda>kv. (\<forall>f. e = Some f \<longrightarrow> \<not> sublist (lower ucd f) (lower ucd (fst kv))))
       (filter (\<lambda>kv. (\<forall>f. i = Some f \<longrightarrow> sublist (lower ucd f) (lower ucd (fst kv)))) routes)"
  by (cases i; cases e) (simp_all add: filter_routes_def str_in_sublist case_prod_unfold)

lemma read_options_scenario_with:
  "read_options ucd (scenario_options\<lparr>CONF_INCL_FILTER := i, CONF_EXCL_FILTER := e,
                                   CONF_UNITS := Some u\<rparr>) =
     Inr (True, [], False, False, False, u)"
  by (simp add: read_options_def scenario_options_def upper_def is_ascii_def upper_char_def
        ascii_lowercase_def ascii_uppercase_def)

lemma scenario_with_fields:
  "origin (scenario_with i e u) = Some ''52.37,4.89''"
  "destination (scenario_with i e u) = Some ''Station Road 1''"
  "region (scenario_with i e u) = ''EU''"
  "CONF_INCL_FILTER (config_entry (scenario_with i e u)) = i"
  "CONF_EXCL_FILTER (config_entry (scenario_with i e u)) = e"
  "CONF_UNITS (config_entry (scenario_with i e u)) = Some u"
  "duration (scenario_with i e u) = None"
  "distance (scenario_with i e u) = None"
  "route (scenario_with i e u) = None"
  by (simp_all add: scenario_with_def scenario_data_fields)

lemma update_scenario_with:
  "WazeTravelTimeData_update ucd engine (scenario_with i e u) =
     try_block ucd engine scenario_params i e u (scenario_with i e u)"
proof -
  have "read_options ucd (config_entry (scenario_with i e u)) =
          Inr (True, [], False, False, False, u)"
    by (simp add: scenario_with_def read_options_scenario_with)
  then show ?thesis
    by (simp add: WazeTravelTimeData_update_def scenario_with_fields scenario_params_def)
qed

lemma calls_scenario_with:
  "calls (WazeTravelTimeData_update ucd engine (scenario_with i e u)) = [scenario_params]"
  by (simp add: update_scenario_with calls_try_block)

lemmas string_eval =
  lower_def is_ascii_def lower_char_def ascii_uppercase_def ascii_lowercase_def

lemma filter_scenario_none: "filter_routes ucd None None routes = routes"
  by (simp add: filter_routes_def)

lemma filter_scenario_incl_B:
  "filter_routes ucd (Some ''B'') None scenario_routes = [(''Route B'', 8, 9)]"
  by (simp add: filter_routes_def scenario_routes_def string_eval)

lemma filter_scenario_excl_a:
  "filter_routes ucd None (Some ''a'') scenario_routes = [(''Route B'', 8, 9)]"
  by (simp add: filter_routes_def scenario_routes_def string_eval)

lemma filter_scenario_excl_route:
  "filter_routes ucd None (Some ''ROUTE'') scenario_routes = []"
  by (simp add: filter_routes_def scenario_routes_def string_eval)

lemma metric_not_imperial: "''metric'' \<noteq> CONF_UNIT_SYSTEM_IMPERIAL"
  by (simp add: CONF_UNIT_SYSTEM_IMPERIAL_def)

lemma update_commit:
  assumes "calls (WazeTravelTimeData_update ucd engine self) = [params]"
    and "engine params = Returns routes"
    and "filter_routes ucd (CONF_INCL_FILTER (config_entry self))
           (CONF_EXCL_FILTER (config_entry self)) routes = (k, d, m) # rest"
  shows "\<exists>units. CONF_UNITS (config_entry self) = Some units \<and>
           WazeTravelTimeData_update ucd engine self =
             \<lparr>state = self\<lparr>duration := Some d,
                  distance := Some (if units = CONF_UNIT_SYSTEM_IMPERIAL then m / 1.609 else m),
                  route := Some k\<rparr>,
              logged = [], calls = [params], raised = None\<rparr>"
proof -
  from assms(1) obtain units where u: "CONF_UNITS (config_entry self) = Some units"
    and t: "WazeTravelTimeData_update ucd engine self =
       try_block ucd engine params (CONF_INCL_FILTER (config_entry self))
         (CONF_EXCL_FILTER (config_entry self)) units self"
    by (rule update_called)
  from t assms(2,3) u show ?thesis
    by (simp add: try_block_commit)
qed

lemma filter_routes_excl_empty: "filter_routes ucd incl (Some []) routes = []"
  by (simp add: filter_routes_def lower_Nil str_in_Nil case_prod_unfold)

lemma filter_routes_incl_empty:
  "filter_routes ucd (Some []) excl routes = filter_routes ucd None excl routes"
  by (simp add: filter_routes_def lower_Nil str_in_Nil case_prod_unfold)

lemma state_try_block_excl_empty:
  "state (try_block ucd engine params i (Some []) u self) = self"
proof (cases "engine params")
  case (Returns routes)
  then show ?thesis
    by (simp add: try_block_no_routes filter_routes_excl_empty)
next
  case (Raises e)
  then show ?thesis by (cases e) (simp_all add: try_block_def)
qed

lemma logged_try_block_excl_empty:
  "engine params = Returns routes \<Longrightarrow>
   try_block ucd engine params i (Some []) u self =
     \<lparr>state = self, logged = [(WARNING, ''No routes found'')], calls = [params],
      raised = None\<rparr>"
  by (simp add: try_block_no_routes filter_routes_excl_empty)

lemma update_excl_empty:
  assumes "CONF_EXCL_FILTER (config_entry self) = Some []"
  shows "state (WazeTravelTimeData_update ucd engine self) = self"
proof -
  from calls_update_cases [of ucd engine self] show ?thesis
  proof
    assume "calls (WazeTravelTimeData_update ucd engine self) = []"
    then show ?thesis
      by (auto simp: WazeTravelTimeData_update_def calls_try_block
            split: option.splits sum.splits prod.splits)
  next
    assume "\<exists>params. calls (WazeTravelTimeData_update ucd engine self) = [params]"
    then obtain params where "calls (WazeTravelTimeData_update ucd engine self) = [params]" ..
    then obtain units where
      "WazeTravelTimeData_update ucd engine self =
         try_block ucd engine params (CONF_INCL_FILTER (config_entry self))
           (CONF_EXCL_FILTER (config_entry self)) units self"
      by (rule update_called)
    with assms show ?thesis by (simp add: state_try_block_excl_empty)
  qed
qed

lemma refresh_cycles_excl_empty:
  "\<forall>c \<in> set cycles. CONF_EXCL_FILTER (fst (snd (snd c))) = Some [] \<Longrightarrow>
   reading (refresh_cycles ucd self cycles) = reading self"
proof (induction cycles arbitrary: self)
  case Nil
  then show ?case by simp
next
  case (Cons c cycles)
  obtain og ds opts engine where c: "c = (og, ds, opts, engine)" by (cases c) auto
  let ?s = "self\<lparr>origin := og, destination := ds, config_entry := opts\<rparr>"
  from Cons.prems c have "CONF_EXCL_FILTER (config_entry ?s) = Some []" by simp
  then have "state (WazeTravelTimeData_update ucd engine ?s) = ?s"
    by (rule update_excl_empty)
  moreover from Cons.prems have
    "reading (refresh_cycles ucd (state (WazeTravelTimeData_update ucd engine ?s)) cycles) =
     reading (state (WazeTravelTimeData_update ucd engine ?s))"
    by (intro Cons.IH) simp
  ultimately show ?case using c by (simp add: reading_def)
qed

lemma update_state_cases:
  "state (WazeTravelTimeData_update ucd engine self) = self \<or>
   committed (WazeTravelTimeData_update ucd engine self)"
proof -
  let ?r = "WazeTravelTimeData_update ucd engine self"
  from calls_update_cases [of ucd engine self] show ?thesis
  proof
    assume "calls ?r = []"
    then have "state ?r = self"
      by (auto simp: WazeTravelTimeData_update_def calls_try_block
            split: option.splits sum.splits prod.splits)
    then show ?thesis ..
  next
    assume "\<exists>params. calls ?r = [params]"
    then obtain params where "calls ?r = [params]" ..
    then obtain units where
      t: "?r = try_block ucd engine params (CONF_INCL_FILTER (config_entry self))
           (CONF_EXCL_FILTER (config_entry self)) units self"
      by (rule update_called)
    show ?thesis
    proof (cases "engine params")
      case (Returns routes)
      show ?thesis
      proof (cases "filter_routes ucd (CONF_INCL_FILTER (config_entry self))
           (CONF_EXCL_FILTER (config_entry self)) routes")
        case Nil
        with Returns t show ?thesis by (simp add: try_block_no_routes)
      next
        case (Cons kv rest)
        obtain k d m where "kv = (k, d, m)" by (cases kv) auto
        with Cons Returns t show ?thesis
          by (simp add: try_block_commit committed_def)
      qed
    next
      case (Raises e)
      with t show ?thesis by (cases e) (simp_all add: try_block_def)
    qed
  qed
qed

lemma filter_routes_subset: "set (filter_routes ucd i e routes) \<subseteq> set routes"
  unfolding filter_routes_sublist by auto

lemma committed_reading:
  assumes "committed (WazeTravelTimeData_update ucd engine self)"
  shows "\<exists>params routes k d m.
           calls (WazeTravelTimeData_update ucd engine self) = [params] \<and>
           engine params = Returns routes \<and> (k, d, m) \<in> set routes \<and>
           reading (state (WazeTravelTimeData_update ucd engine self)) =
             (Some d,
              Some (if CONF_UNITS (config_entry self) = Some CONF_UNIT_SYSTEM_IMPERIAL
                    then m / 1.609 else m),
              Some k)"
proof -
  let ?i = "CONF_INCL_FILTER (config_entry self)"
  let ?e = "CONF_EXCL_FILTER (config_entry self)"
  from assms obtain params routes k d m rest units where
    c: "calls (WazeTravelTimeData_update ucd engine self) = [params]"
    and r: "engine params = Returns routes"
    and f: "filter_routes ucd ?i ?e routes = (k, d, m) # rest"
    and u: "CONF_UNITS (config_entry self) = Some units"
    and s: "WazeTravelTimeData_update ucd engine self =
       \<lparr>state = self\<lparr>duration := Some d,
           distance := Some (if units = CONF_UNIT_SYSTEM_IMPERIAL then m / 1.609 else m),
           route := Some k\<rparr>, logged = [], calls = [params], raised = None\<rparr>"
    by (rule committedE)
  from f have "(k, d, m) \<in> set (filter_routes ucd ?i ?e routes)" by simp
  with filter_routes_subset have m: "(k, d, m) \<in> set routes" by blast
  from s u have "reading (state (WazeTravelTimeData_update ucd engine self)) =
             (Some d,
              Some (if CONF_UNITS (config_entry self) = Some CONF_UNIT_SYSTEM_IMPERIAL
                    then m / 1.609 else m),
              Some k)"
    by (simp add: reading_def)
  with c r m show ?thesis by blast
qed

lemma all_or_nothing_reading:
  "all_or_nothing self =
     (reading self = (None, None, None) \<or>
      (\<exists>d m k. reading self = (Some d, Some m, Some k)))"
  by (auto simp: all_or_nothing_def reading_def)

lemma all_or_nothing_update:
  assumes "all_or_nothing self"
  shows "all_or_nothing (state (WazeTravelTimeData_update ucd engine self))"
proof -
  from update_state_cases [of ucd engine self] show ?thesis
  proof
    assume "state (WazeTravelTimeData_update ucd engine self) = self"
    with assms show ?thesis by simp
  next
    assume "committed (WazeTravelTimeData_update ucd engine self)"
    from committed_reading [OF this] show ?thesis
      unfolding all_or_nothing_reading by blast
  qed
qed

lemma all_or_nothing_refresh_cycles:
  "all_or_nothing self \<Longrightarrow> all_or_nothing (refresh_cycles ucd self cycles)"
proof (induction cycles arbitrary: self)
  case Nil
  then show ?case by simp
next
  case (Cons c cycles)
  obtain og ds opts engine where c: "c = (og, ds, opts, engine)" by (cases c) auto
  let ?s = "self\<lparr>origin := og, destination := ds, config_entry := opts\<rparr>"
  from Cons.prems have "all_or_nothing ?s" by (simp add: all_or_nothing_def)
  then have "all_or_nothing (state (WazeTravelTimeData_update ucd engine ?s))"
    by (rule all_or_nothing_update)
  then have "all_or_nothing (refresh_cycles ucd (state (WazeTravelTimeData_update ucd engine ?s)) cycles)"
    by (rule Cons.IH)
  with c show ?case by simp
qed

lemma all_or_nothing_init: "all_or_nothing (WazeTravelTimeData_init og ds rg opts)"
  by (simp add: all_or_nothing_def WazeTravelTimeData_init_def)

lemma try_block_scenario_commit:
  "try_block ucd scenario_engine scenario_params None None ''metric'' self =
     \<lparr>state = self\<lparr>duration := Some 10, distance := Some 12, route := Some ''Route A''\<rparr>,
      logged = [], calls = [scenario_params], raised = None\<rparr>"
  using try_block_commit [of scenario_engine scenario_params scenario_routes ucd None None
          "''Route A''" 10 12 "[(''Route B'', 8, 9)]" "''metric''" self]
  by (simp add: scenario_engine_def filter_scenario_none scenario_routes_def metric_not_imperial)

lemma refresh_cycles_scenario:
  "refresh_cycles ucd (WazeTravelTimeData_init None None ''EU'' scenario_options) scenario_cycles =
     scenario_data\<lparr>duration := Some 10, distance := Some 12, route := Some ''Route A''\<rparr>"
proof -
  let ?d = "scenario_data"
  let ?c = "scenario_data\<lparr>duration := Some 10, distance := Some 12, route := Some ''Route A''\<rparr>"
  have i: "(WazeTravelTimeData_init None None ''EU'' scenario_options)
             \<lparr>origin := Some ''52.37,4.89'', destination := Some ''Station Road 1'',
              config_entry := scenario_options\<rparr> = ?d"
    by (simp add: scenario_data_def WazeTravelTimeData_init_def)
  have 1: "state (WazeTravelTimeData_update ucd failing_engine ?d) = ?d"
    by (simp add: update_scenario_data try_block_WRCError failing_engine_def)
  have 2: "state (WazeTravelTimeData_update ucd scenario_engine (?d\<lparr>origin := None\<rparr>)) =
             ?d\<lparr>origin := None\<rparr>"
    by (simp add: update_noop)
  have 3: "state (WazeTravelTimeData_update ucd scenario_engine ?d) = ?c"
    by (simp add: update_scenario_data try_block_scenario_commit)
  have o: "scenario_options\<lparr>CONF_EXCL_FILTER := Some ''ROUTE''\<rparr> =
           scenario_options\<lparr>CONF_INCL_FILTER := None, CONF_EXCL_FILTER := Some ''ROUTE'',
                            CONF_UNITS := Some ''metric''\<rparr>"
    by (simp add: scenario_options_def)
  let ?x = "?c\<lparr>config_entry := scenario_options\<lparr>CONF_EXCL_FILTER := Some ''ROUTE''\<rparr>\<rparr>"
  have r: "read_options ucd (config_entry ?x) = Inr (True, [], False, False, False, ''metric'')"
    by (simp add: o read_options_scenario_with)
  have "WazeTravelTimeData_update ucd scenario_engine ?x =
          try_block ucd scenario_engine scenario_params None (Some ''ROUTE'') ''metric'' ?x"
    using r by (simp add: WazeTravelTimeData_update_def scenario_data_fields scenario_params_def
         scenario_options_def)
  then have 4: "state (WazeTravelTimeData_update ucd scenario_engine ?x) = ?x"
    by (simp add: try_block_no_routes [of _ _ scenario_routes] scenario_engine_def
          filter_scenario_excl_route)
  let ?y = "?c\<lparr>config_entry := scenario_options\<rparr>"
  have y: "?y = ?c" by (simp add: scenario_data_def WazeTravelTimeData_init_def)
  have r5: "read_options ucd (config_entry ?c) = Inr (True, [], False, False, False, ''metric'')"
    by (simp add: scenario_data_fields read_options_scenario)
  have "WazeTravelTimeData_update ucd malformed_engine ?c =
          try_block ucd malformed_engine scenario_params None None ''metric'' ?c"
    using r5 by (simp add: WazeTravelTimeData_update_def scenario_data_fields scenario_params_def
         scenario_options_filters)
  then have 5: "state (WazeTravelTimeData_update ucd malformed_engine ?c) = ?c"
    by (simp add: try_block_KeyError malformed_engine_def)
  have a: "?d\<lparr>origin := Some ''52.37,4.89'', destination := Some ''Station Road 1'',
              config_entry := scenario_options\<rparr> = ?d"
          "?d\<lparr>origin := None, destination := Some ''Station Road 1'',
              config_entry := scenario_options\<rparr> = ?d\<lparr>origin := None\<rparr>"
          "?d\<lparr>origin := None\<rparr>\<lparr>origin := Some ''52.37,4.89'',
              destination := Some ''Station Road 1'',
              config_entry := scenario_options\<rparr> = ?d"
          "?c\<lparr>origin := Some ''52.37,4.89'', destination := Some ''Station Road 1'',
              config_entry := scenario_options\<lparr>CONF_EXCL_FILTER := Some ''ROUTE''\<rparr>\<rparr> = ?x"
          "?x\<lparr>origin := Some ''52.37,4.89'', destination := Some ''Station Road 1'',
              config_entry := scenario_options\<rparr> = ?c"
    by (simp_all add: scenario_data_def WazeTravelTimeData_init_def)
  show ?thesis
    unfolding scenario_cycles_def refresh_cycles.simps i a 1 2 3 4 5 ..
qed

lemma py_round_cases:
  "real_of_int (py_round x) = of_int \<lfloor>x\<rfloor> \<and> x - of_int \<lfloor>x\<rfloor> \<le> 1 / 2 \<or>
   real_of_int (py_round x) = of_int \<lfloor>x\<rfloor> + 1 \<and> 1 / 2 \<le> x - of_int \<lfloor>x\<rfloor>"
  by (auto simp: py_round_def Let_def)

lemma py_round_half: "\<bar>real_of_int (py_round x) - x\<bar> \<le> 1 / 2"
proof -
  have "of_int \<lfloor>x\<rfloor> \<le> x" "x < of_int \<lfloor>x\<rfloor> + 1" by linarith+
  with py_round_cases [of x] show ?thesis by linarith
qed

lemma py_round_nearest: "\<bar>real_of_int (py_round x) - x\<bar> \<le> \<bar>real_of_int k - x\<bar>"
proof -
  have f: "of_int \<lfloor>x\<rfloor> \<le> x" "x < of_int \<lfloor>x\<rfloor> + 1" by linarith+
  have "k \<le> \<lfloor>x\<rfloor> \<or> \<lfloor>x\<rfloor> + 1 \<le> k" by linarith
  then have "real_of_int k \<le> of_int \<lfloor>x\<rfloor> \<or> real_of_int \<lfloor>x\<rfloor> + 1 \<le> of_int k"
    by (metis of_int_le_iff of_int_add of_int_1)
  with f py_round_cases [of x] show ?thesis by linarith
qed

lemma py_round_tie_even:
  "x - of_int \<lfloor>x\<rfloor> = 1 / 2 \<Longrightarrow> even (py_round x)"
  by (auto simp: py_round_def Let_def)

lemma duration_update:
  "duration (state (WazeTravelTimeData_update ucd engine self)) \<noteq> None \<longleftrightarrow>
     duration self \<noteq> None \<or> committed (WazeTravelTimeData_update ucd engine self)"
proof (cases "committed (WazeTravelTimeData_update ucd engine self)")
  case True
  from committed_reading [OF True] show ?thesis
    using True by (auto simp: reading_def)
next
  case False
  with update_state_cases [of ucd engine self] show ?thesis by auto
qed

lemma duration_refresh_cycles:
  "duration (refresh_cycles ucd self cycles) \<noteq> None \<longleftrightarrow>
     duration self \<noteq> None \<or> (\<exists>r \<in> set (refresh_results ucd self cycles). committed r)"
proof (induction cycles arbitrary: self)
  case Nil
  then show ?case by simp
next
  case (Cons c cycles)
  obtain og ds opts engine where c: "c = (og, ds, opts, engine)" by (cases c) auto
  let ?s = "self\<lparr>origin := og, destination := ds, config_entry := opts\<rparr>"
  let ?r = "WazeTravelTimeData_update ucd engine ?s"
  have "duration (refresh_cycles ucd (state ?r) cycles) \<noteq> None \<longleftrightarrow>
     duration (state ?r) \<noteq> None \<or> (\<exists>r \<in> set (refresh_results ucd (state ?r) cycles). committed r)"
    by (rule Cons.IH)
  moreover have "duration (state ?r) \<noteq> None \<longleftrightarrow> duration self \<noteq> None \<or> committed ?r"
    using duration_update [of ucd engine ?s] by simp
  ultimately show ?case using c by (auto simp: Let_def)
qed

lemma py_round_examples:
  "py_round 10 = 10" "py_round 7.458 = 7" "py_round 6.5 = 6" "py_round 7.5 = 8"
  "py_round (-0.5) = 0" "py_round (-1.5) = -2"
  by (simp_all add: py_round_def Let_def)


lemma update_keeps_locations:
  "origin (state (WazeTravelTimeData_update ucd engine self)) = origin self \<and>
   destination (state (WazeTravelTimeData_update ucd engine self)) = destination self"
proof -
  from update_state_cases [of ucd engine self] show ?thesis
  proof
    assume "state (WazeTravelTimeData_update ucd engine self) = self"
    then show ?thesis by simp
  next
    assume "committed (WazeTravelTimeData_update ucd engine self)"
    then obtain params k d m units where
      "WazeTravelTimeData_update ucd engine self =
         \<lparr>state = self\<lparr>duration := Some d,
             distance := Some (if units = CONF_UNIT_SYSTEM_IMPERIAL then m / 1.609 else m),
             route := Some k\<rparr>, logged = [], calls = [params], raised = None\<rparr>"
      by (rule committedE)
    then show ?thesis by simp
  qed
qed

lemma resolve_location_entity:
  "resolve_location fc hass (Some eid) current = Inl AttributeError \<or>
   (\<exists>s. resolve_location fc hass (Some eid) current = Inr (Some s))"
  by (auto simp: resolve_location_def split: option.splits)

lemma resolve_location_missing:
  "states hass eid = None \<Longrightarrow>
   resolve_location fc hass (Some eid) current =
     (case fc hass eid of None \<Rightarrow> Inl AttributeError | Some c \<Rightarrow> Inr (Some c))"
  by (simp add: resolve_location_def split: option.splits)

lemma WazeTravelTime_update_noop:
  assumes "resolve_location fc hass (origin_entity_id self) (origin (waze_data self)) = Inr og"
    and "resolve_location fc hass (destination_entity_id self) (destination (waze_data self)) =
           Inr ds"
    and "og = None \<or> ds = None"
  shows "WazeTravelTime_update ucd fc hass engine self =
           \<lparr>state = self\<lparr>waze_data := (waze_data self)\<lparr>origin := og, destination := ds\<rparr>\<rparr>,
            logged = [(DEBUG, ''Fetching Route for '' @ attr_name self)],
            calls = [], raised = None\<rparr>"
proof -
  let ?d = "(waze_data self)\<lparr>origin := og, destination := ds\<rparr>"
  from assms(3) have "origin ?d = None \<or> destination ?d = None" by simp
  then have "WazeTravelTimeData_update ucd engine ?d =
               \<lparr>state = ?d, logged = [], calls = [], raised = None\<rparr>"
    by (rule update_noop)
  with assms(1,2) show ?thesis
    by (simp add: WazeTravelTime_update_def Let_def)
qed

lemma WazeTravelTime_update_origin_entity:
  assumes "origin_entity_id self = Some eid"
  shows "WazeTravelTime_update ucd fc hass engine self =
           \<lparr>state = self, logged = [(DEBUG, ''Fetching Route for '' @ attr_name self)],
            calls = [], raised = Some AttributeError\<rparr> \<or>
         origin (waze_data (state (WazeTravelTime_update ucd fc hass engine self))) \<noteq> None"
proof -
  from resolve_location_entity [of fc hass eid "origin (waze_data self)"] show ?thesis
  proof
    assume "resolve_location fc hass (Some eid) (origin (waze_data self)) = Inl AttributeError"
    with assms show ?thesis by (simp add: WazeTravelTime_update_def)
  next
    assume "\<exists>s. resolve_location fc hass (Some eid) (origin (waze_data self)) = Inr (Some s)"
    then obtain s where
      s: "resolve_location fc hass (Some eid) (origin (waze_data self)) = Inr (Some s)" ..
    let ?d1 = "(waze_data self)\<lparr>origin := Some s\<rparr>"
    have "origin (waze_data (state (WazeTravelTime_update ucd fc hass engine self))) = Some s"
    proof (cases "resolve_location fc hass (destination_entity_id self) (destination ?d1)")
      case (Inl e)
      with s assms show ?thesis by (simp add: WazeTravelTime_update_def)
    next
      case (Inr ds)
      with s assms show ?thesis
        by (simp add: WazeTravelTime_update_def Let_def update_keeps_locations)
    qed
    then show ?thesis by simp
  qed
qed

lemma tracker_sensor_init:
  assumes "fullmatch ''device_tracker.phone''" and "\<not> fullmatch ''Station Road 1''"
  shows "state (WazeTravelTime_init fullmatch ''entry'' ''Waze Travel Time''
                  ''device_tracker.phone'' ''Station Road 1''
                  (WazeTravelTimeData_init None None ''EU'' scenario_options)) =
           tracker_sensor"
  using assms by (simp add: WazeTravelTime_init_def tracker_sensor_def)









section \<open>Errors of the routing call\<close>

text \<open>
  Claim C1. Whenever \<^verbatim>\<open>update\<close> makes the routing call and the call raises a
  \<^verbatim>\<open>WRCError\<close> or a \<^verbatim>\<open>KeyError\<close>, the exception is caught (nothing escapes), exactly one
  record is logged, at warning level for the \<^verbatim>\<open>WRCError\<close> and at error level for the
  \<^verbatim>\<open>KeyError\<close>, and the data object, with its duration, distance and route, is what it
  was before the call.
\<close>

theorem C1_routing_error_caught:
  assumes "calls (WazeTravelTimeData_update ucd engine self) = [params]"
  shows "(engine params = Raises (WRCError msg) \<longrightarrow>
            WazeTravelTimeData_update ucd engine self =
              \<lparr>state = self, logged = [(WARNING, ''Error on retrieving data: '' @ msg)],
               calls = [params], raised = None\<rparr>) \<and>
         (engine params = Raises KeyError \<longrightarrow>
            WazeTravelTimeData_update ucd engine self =
              \<lparr>state = self, logged = [(ERROR, ''Error retrieving data from server'')],
               calls = [params], raised = None\<rparr>)"
proof -
  from assms obtain units where
    "WazeTravelTimeData_update ucd engine self =
       try_block ucd engine params (CONF_INCL_FILTER (config_entry self))
         (CONF_EXCL_FILTER (config_entry self)) units self"
    by (rule update_called)
  then show ?thesis
    by (simp add: try_block_WRCError try_block_KeyError)
qed

text \<open>The theorem at the data object of the scenarios, for both failing engines.\<close>

theorem C1_witness:
  "calls (WazeTravelTimeData_update scenario_ucd failing_engine scenario_data) = [scenario_params] \<and>
   failing_engine scenario_params = Raises (WRCError ''empty response'') \<and>
   WazeTravelTimeData_update scenario_ucd failing_engine scenario_data =
     \<lparr>state = scenario_data,
      logged = [(WARNING, ''Error on retrieving data: empty response'')],
      calls = [scenario_params], raised = None\<rparr> \<and>
   calls (WazeTravelTimeData_update scenario_ucd malformed_engine scenario_data) = [scenario_params] \<and>
   malformed_engine scenario_params = Raises KeyError \<and>
   WazeTravelTimeData_update scenario_ucd malformed_engine scenario_data =
     \<lparr>state = scenario_data, logged = [(ERROR, ''Error retrieving data from server'')],
      calls = [scenario_params], raised = None\<rparr>"
proof -
  have c1: "calls (WazeTravelTimeData_update scenario_ucd failing_engine scenario_data) = [scenario_params]"
    by (simp add: update_scenario_data calls_try_block)
  have c2: "calls (WazeTravelTimeData_update scenario_ucd malformed_engine scenario_data) = [scenario_params]"
    by (simp add: update_scenario_data calls_try_block)
  have e1: "failing_engine scenario_params = Raises (WRCError ''empty response'')"
    by (simp add: failing_engine_def)
  have e2: "malformed_engine scenario_params = Raises KeyError"
    by (simp add: malformed_engine_def)
  from C1_routing_error_caught [OF c1, of "''empty response''"]
       C1_routing_error_caught [OF c2, of "''empty response''"] c1 c2 e1 e2
  show ?thesis by simp
qed

section \<open>The filters\<close>



section \<open>Selection\<close>

text \<open>
  Claim C4. When the routing call returns a mapping whose filtered set is not empty,
  \<^verbatim>\<open>update\<close> commits the first entry of the filtered set in the order of the mapping:
  its name, its duration, and its distance (in kilometres unless the units are imperial,
  see C6); nothing is sorted. For the mapping of the scenarios: without filters and with
  units other than imperial the reading becomes duration 10, distance 12, route
  \<^verbatim>\<open>Route A\<close>; with include filter \<^verbatim>\<open>B\<close> it becomes route \<^verbatim>\<open>Route B\<close>, duration 8.
\<close>

theorem C4_selects_first:
  assumes "calls (WazeTravelTimeData_update ucd engine self) = [params]"
    and "engine params = Returns routes"
    and "filter_routes ucd (CONF_INCL_FILTER (config_entry self))
           (CONF_EXCL_FILTER (config_entry self)) routes = (name, dur, km) # rest"
    and "CONF_UNITS (config_entry self) = Some units"
  shows "WazeTravelTimeData_update ucd engine self =
           \<lparr>state = self\<lparr>duration := Some dur,
                distance := Some (if units = CONF_UNIT_SYSTEM_IMPERIAL
                                  then km / 1.609 else km),
                route := Some name\<rparr>,
            logged = [], calls = [params], raised = None\<rparr> \<and>
         (routes = scenario_routes \<and> CONF_INCL_FILTER (config_entry self) = None \<and>
          CONF_EXCL_FILTER (config_entry self) = None \<and>
          units \<noteq> CONF_UNIT_SYSTEM_IMPERIAL \<longrightarrow>
            reading (state (WazeTravelTimeData_update ucd engine self)) =
              (Some 10, Some 12, Some ''Route A'')) \<and>
         (routes = scenario_routes \<and> CONF_INCL_FILTER (config_entry self) = Some ''B'' \<and>
          CONF_EXCL_FILTER (config_entry self) = None \<longrightarrow>
            route (state (WazeTravelTimeData_update ucd engine self)) = Some ''Route B'' \<and>
            duration (state (WazeTravelTimeData_update ucd engine self)) = Some 8)"
proof -
  from update_commit [OF assms(1,2,3)] assms(4)
  have u: "WazeTravelTimeData_update ucd engine self =
           \<lparr>state = self\<lparr>duration := Some dur,
                distance := Some (if units = CONF_UNIT_SYSTEM_IMPERIAL
                                  then km / 1.609 else km),
                route := Some name\<rparr>,
            logged = [], calls = [params], raised = None\<rparr>"
    by auto
  have a: "reading (state (WazeTravelTimeData_update ucd engine self)) =
              (Some 10, Some 12, Some ''Route A'')"
    if "routes = scenario_routes" "CONF_INCL_FILTER (config_entry self) = None"
       "CONF_EXCL_FILTER (config_entry self) = None" "units \<noteq> CONF_UNIT_SYSTEM_IMPERIAL"
  proof -
    from assms(3) that have "(name, dur, km) # rest = scenario_routes"
      by (simp add: filter_scenario_none)
    then have "name = ''Route A''" "dur = 10" "km = 12"
      by (simp_all add: scenario_routes_def)
    with u that(4) show ?thesis by (simp add: reading_def)
  qed
  have b: "route (state (WazeTravelTimeData_update ucd engine self)) = Some ''Route B'' \<and>
            duration (state (WazeTravelTimeData_update ucd engine self)) = Some 8"
    if "routes = scenario_routes" "CONF_INCL_FILTER (config_entry self) = Some ''B''"
       "CONF_EXCL_FILTER (config_entry self) = None"
  proof -
    from assms(3) that have "(name, dur, km) # rest = [(''Route B'', 8, 9)]"
      by (simp add: filter_scenario_incl_B)
    then have "name = ''Route B''" "dur = 8" by simp_all
    with u show ?thesis by simp
  qed
  show ?thesis
  proof (intro conjI)
    show "WazeTravelTimeData_update ucd engine self =
           \<lparr>state = self\<lparr>duration := Some dur,
                distance := Some (if units = CONF_UNIT_SYSTEM_IMPERIAL
                                  then km / 1.609 else km),
                route := Some name\<rparr>,
            logged = [], calls = [params], raised = None\<rparr>"
      by (rule u)
  next
    show "routes = scenario_routes \<and> CONF_INCL_FILTER (config_entry self) = None \<and>
          CONF_EXCL_FILTER (config_entry self) = None \<and>
          units \<noteq> CONF_UNIT_SYSTEM_IMPERIAL \<longrightarrow>
            reading (state (WazeTravelTimeData_update ucd engine self)) =
              (Some 10, Some 12, Some ''Route A'')"
      by (intro impI, elim conjE, rule a)
  next
    show "routes = scenario_routes \<and> CONF_INCL_FILTER (config_entry self) = Some ''B'' \<and>
          CONF_EXCL_FILTER (config_entry self) = None \<longrightarrow>
            route (state (WazeTravelTimeData_update ucd engine self)) = Some ''Route B'' \<and>
            duration (state (WazeTravelTimeData_update ucd engine self)) = Some 8"
      by (intro impI, elim conjE, rule b)
  qed
qed

text \<open>Scenario 1 and scenario 3 through the theorem.\<close>

theorem C4_witness:
  "calls (WazeTravelTimeData_update scenario_ucd scenario_engine scenario_data) = [scenario_params] \<and>
   scenario_engine scenario_params = Returns scenario_routes \<and>
   filter_routes scenario_ucd (CONF_INCL_FILTER (config_entry scenario_data))
     (CONF_EXCL_FILTER (config_entry scenario_data)) scenario_routes =
       (''Route A'', 10, 12) # [(''Route B'', 8, 9)] \<and>
   CONF_UNITS (config_entry scenario_data) = Some ''metric'' \<and>
   ''metric'' \<noteq> CONF_UNIT_SYSTEM_IMPERIAL \<and>
   WazeTravelTimeData_update scenario_ucd scenario_engine scenario_data =
     \<lparr>state = scenario_data\<lparr>duration := Some 10, distance := Some 12,
                               route := Some ''Route A''\<rparr>,
      logged = [], calls = [scenario_params], raised = None\<rparr> \<and>
   reading (state (WazeTravelTimeData_update scenario_ucd scenario_engine scenario_data)) =
     (Some 10, Some 12, Some ''Route A'') \<and>
   calls (WazeTravelTimeData_update scenario_ucd scenario_engine
            (scenario_with (Some ''B'') None ''metric'')) = [scenario_params] \<and>
   filter_routes scenario_ucd (CONF_INCL_FILTER (config_entry (scenario_with (Some ''B'') None ''metric'')))
     (CONF_EXCL_FILTER (config_entry (scenario_with (Some ''B'') None ''metric'')))
     scenario_routes = (''Route B'', 8, 9) # [] \<and>
   route (state (WazeTravelTimeData_update scenario_ucd scenario_engine
                   (scenario_with (Some ''B'') None ''metric''))) = Some ''Route B'' \<and>
   duration (state (WazeTravelTimeData_update scenario_ucd scenario_engine
                      (scenario_with (Some ''B'') None ''metric''))) = Some 8"
proof -
  let ?b = "scenario_with (Some ''B'') None ''metric''"
  have c: "calls (WazeTravelTimeData_update scenario_ucd scenario_engine scenario_data) = [scenario_params]"
    by (simp add: update_scenario_data calls_try_block)
  have e: "scenario_engine scenario_params = Returns scenario_routes"
    by (simp add: scenario_engine_def)
  have f: "filter_routes scenario_ucd (CONF_INCL_FILTER (config_entry scenario_data))
     (CONF_EXCL_FILTER (config_entry scenario_data)) scenario_routes =
       (''Route A'', 10, 12) # [(''Route B'', 8, 9)]"
    by (simp add: scenario_data_fields scenario_options_filters filter_scenario_none
          scenario_routes_def)
  have n: "CONF_UNITS (config_entry scenario_data) = Some ''metric''"
    by (simp add: scenario_data_fields scenario_options_def)
  have c': "calls (WazeTravelTimeData_update scenario_ucd scenario_engine ?b) = [scenario_params]"
    by (rule calls_scenario_with)
  have f': "filter_routes scenario_ucd (CONF_INCL_FILTER (config_entry ?b))
     (CONF_EXCL_FILTER (config_entry ?b)) scenario_routes = (''Route B'', 8, 9) # []"
    by (simp add: scenario_with_fields filter_scenario_incl_B)
  have n': "CONF_UNITS (config_entry ?b) = Some ''metric''"
    by (simp add: scenario_with_fields)
  have 1: "WazeTravelTimeData_update scenario_ucd scenario_engine scenario_data =
     \<lparr>state = scenario_data\<lparr>duration := Some 10, distance := Some 12,
                               route := Some ''Route A''\<rparr>,
      logged = [], calls = [scenario_params], raised = None\<rparr> \<and>
   reading (state (WazeTravelTimeData_update scenario_ucd scenario_engine scenario_data)) =
     (Some 10, Some 12, Some ''Route A'')"
    using C4_selects_first [OF c e f n] metric_not_imperial
    by (simp add: scenario_data_fields scenario_options_filters reading_def)
  have 2: "route (state (WazeTravelTimeData_update scenario_ucd scenario_engine ?b)) = Some ''Route B'' \<and>
     duration (state (WazeTravelTimeData_update scenario_ucd scenario_engine ?b)) = Some 8"
    using C4_selects_first [OF c' e f' n'] by (simp add: scenario_with_fields)
  from 1 2 c e f n c' f' metric_not_imperial show ?thesis
    by (elim conjE, intro conjI) assumption+
qed

section \<open>Scenario 2: the exclude filter \<^verbatim>\<open>a\<close>\<close>

text \<open>
  Claim C5 says that with exclude filter \<^verbatim>\<open>a\<close> both names of the scenario contain the
  filter, so that nothing is left and nothing is committed. The name \<^verbatim>\<open>Route B\<close>,
  lower-cased \<^verbatim>\<open>route b\<close>, has no \<^verbatim>\<open>a\<close> in it: the filtered mapping is
  \<^verbatim>\<open>{"Route B": (8.0, 9.0)}\<close>, and the update commits it and logs nothing.
\<close>

theorem C5_counterexample:
  "\<not> str_in (lower scenario_ucd ''a'') (lower scenario_ucd ''Route B'') \<and>
   filter_routes scenario_ucd None (Some ''a'') scenario_routes = [(''Route B'', 8, 9)] \<and>
   WazeTravelTimeData_update scenario_ucd scenario_engine (scenario_with None (Some ''a'') ''metric'') =
     \<lparr>state = scenario_with None (Some ''a'') ''metric''
                \<lparr>duration := Some 8, distance := Some 9, route := Some ''Route B''\<rparr>,
      logged = [], calls = [scenario_params], raised = None\<rparr> \<and>
   reading (state (WazeTravelTimeData_update scenario_ucd scenario_engine
                     (scenario_with None (Some ''a'') ''metric''))) \<noteq>
     reading (scenario_with None (Some ''a'') ''metric'')"
proof -
  let ?s = "scenario_with None (Some ''a'') ''metric''"
  have u: "WazeTravelTimeData_update scenario_ucd scenario_engine ?s =
     \<lparr>state = ?s\<lparr>duration := Some 8, distance := Some 9, route := Some ''Route B''\<rparr>,
      logged = [], calls = [scenario_params], raised = None\<rparr>"
    using try_block_commit [where engine = scenario_engine and params = scenario_params
             and routes = scenario_routes and ucd = scenario_ucd and i = None and e = "Some ''a''"
             and k = "''Route B''" and d = 8 and m = 9 and rest = "[]" and u = "''metric''"
             and self = ?s]
    by (simp add: update_scenario_with scenario_engine_def filter_scenario_excl_a
          metric_not_imperial)
  have n: "\<not> str_in (lower scenario_ucd ''a'') (lower scenario_ucd ''Route B'')"
    by (simp add: string_eval)
  from u n show ?thesis
    by (simp add: filter_scenario_excl_a reading_def scenario_with_fields)
qed

text \<open>
  Claim C5, amended. With the mapping of the scenarios, no include filter and exclude
  filter \<^verbatim>\<open>a\<close>: \<^verbatim>\<open>Route A\<close> contains the filter and \<^verbatim>\<open>Route B\<close> does not, the filtered
  mapping is \<^verbatim>\<open>{"Route B": (8.0, 9.0)}\<close>, and \<^verbatim>\<open>update\<close> commits route \<^verbatim>\<open>Route B\<close>,
  duration 8 and distance 9 (in kilometres unless the units are imperial) and logs nothing.
\<close>

theorem C5_exclude_a_commits_route_B:
  assumes "calls (WazeTravelTimeData_update ucd engine self) = [params]"
    and "engine params = Returns scenario_routes"
    and "CONF_INCL_FILTER (config_entry self) = None"
    and "CONF_EXCL_FILTER (config_entry self) = Some ''a''"
    and "CONF_UNITS (config_entry self) = Some units"
  shows "str_in (lower ucd ''a'') (lower ucd ''Route A'') \<and>
         \<not> str_in (lower ucd ''a'') (lower ucd ''Route B'') \<and>
         filter_routes ucd None (Some ''a'') scenario_routes = [(''Route B'', 8, 9)] \<and>
         WazeTravelTimeData_update ucd engine self =
           \<lparr>state = self\<lparr>duration := Some 8,
                distance := Some (if units = CONF_UNIT_SYSTEM_IMPERIAL then 9 / 1.609 else 9),
                route := Some ''Route B''\<rparr>,
            logged = [], calls = [params], raised = None\<rparr>"
proof -
  have f: "filter_routes ucd (CONF_INCL_FILTER (config_entry self))
           (CONF_EXCL_FILTER (config_entry self)) scenario_routes = (''Route B'', 8, 9) # []"
    using assms(3,4) by (simp add: filter_scenario_excl_a)
  from update_commit [OF assms(1,2) f] assms(5)
  have "WazeTravelTimeData_update ucd engine self =
           \<lparr>state = self\<lparr>duration := Some 8,
                distance := Some (if units = CONF_UNIT_SYSTEM_IMPERIAL then 9 / 1.609 else 9),
                route := Some ''Route B''\<rparr>,
            logged = [], calls = [params], raised = None\<rparr>"
    by auto
  moreover have "str_in (lower ucd ''a'') (lower ucd ''Route A'')"
    "\<not> str_in (lower ucd ''a'') (lower ucd ''Route B'')"
    by (simp_all add: string_eval)
  ultimately show ?thesis by (simp add: filter_scenario_excl_a)
qed

text \<open>The amended claim at the data object of the scenario.\<close>

theorem C5_witness:
  "calls (WazeTravelTimeData_update scenario_ucd scenario_engine
            (scenario_with None (Some ''a'') ''metric'')) = [scenario_params] \<and>
   scenario_engine scenario_params = Returns scenario_routes \<and>
   state (WazeTravelTimeData_update scenario_ucd scenario_engine
            (scenario_with None (Some ''a'') ''metric'')) =
     scenario_with None (Some ''a'') ''metric''
       \<lparr>duration := Some 8, distance := Some 9, route := Some ''Route B''\<rparr> \<and>
   logged (WazeTravelTimeData_update scenario_ucd scenario_engine
             (scenario_with None (Some ''a'') ''metric'')) = []"
proof -
  let ?s = "scenario_with None (Some ''a'') ''metric''"
  have c: "calls (WazeTravelTimeData_update scenario_ucd scenario_engine ?s) = [scenario_params]"
    by (rule calls_scenario_with)
  have e: "scenario_engine scenario_params = Returns scenario_routes"
    by (simp add: scenario_engine_def)
  have i: "CONF_INCL_FILTER (config_entry ?s) = None"
    and x: "CONF_EXCL_FILTER (config_entry ?s) = Some ''a''"
    and n: "CONF_UNITS (config_entry ?s) = Some ''metric''"
    by (simp_all add: scenario_with_fields)
  from C5_exclude_a_commits_route_B [OF c e i x n] c e metric_not_imperial
  show ?thesis by simp
qed

section \<open>Unit conversion\<close>

text \<open>
  Claim C6. When \<^verbatim>\<open>update\<close> commits the entry with distance \<open>km\<close>: if the units option is
  \<^verbatim>\<open>imperial\<close>, the stored distance is \<open>km / 1.609\<close>; for any other units it is \<open>km\<close>
  itself. With imperial units and 12 kilometres the stored distance is within 0.0001 of
  7.458. Distances are real numbers here; the rounding of floating point division is not
  modelled.
\<close>

theorem C6_unit_conversion:
  assumes "calls (WazeTravelTimeData_update ucd engine self) = [params]"
    and "engine params = Returns routes"
    and "filter_routes ucd (CONF_INCL_FILTER (config_entry self))
           (CONF_EXCL_FILTER (config_entry self)) routes = (name, dur, km) # rest"
  shows "(CONF_UNITS (config_entry self) = Some CONF_UNIT_SYSTEM_IMPERIAL \<longrightarrow>
            distance (state (WazeTravelTimeData_update ucd engine self)) = Some (km / 1.609)) \<and>
         (CONF_UNITS (config_entry self) \<noteq> Some CONF_UNIT_SYSTEM_IMPERIAL \<longrightarrow>
            distance (state (WazeTravelTimeData_update ucd engine self)) = Some km) \<and>
         (CONF_UNITS (config_entry self) = Some CONF_UNIT_SYSTEM_IMPERIAL \<and> km = 12 \<longrightarrow>
            (\<exists>miles. distance (state (WazeTravelTimeData_update ucd engine self)) = Some miles \<and>
                     \<bar>miles - 7.458\<bar> < 0.0001))"
proof -
  from update_commit [OF assms] obtain units where
    u: "CONF_UNITS (config_entry self) = Some units"
    and s: "WazeTravelTimeData_update ucd engine self =
             \<lparr>state = self\<lparr>duration := Some dur,
                  distance := Some (if units = CONF_UNIT_SYSTEM_IMPERIAL then km / 1.609 else km),
                  route := Some name\<rparr>,
              logged = [], calls = [params], raised = None\<rparr>"
    by blast
  have d: "distance (state (WazeTravelTimeData_update ucd engine self)) =
            Some (if units = CONF_UNIT_SYSTEM_IMPERIAL then km / 1.609 else km)"
    by (simp add: s)
  have a: "\<bar>(12::real) / 1.609 - 7.458\<bar> < 0.0001" by simp
  show ?thesis
  proof (intro conjI impI)
    assume "CONF_UNITS (config_entry self) = Some CONF_UNIT_SYSTEM_IMPERIAL"
    with d u show "distance (state (WazeTravelTimeData_update ucd engine self)) = Some (km / 1.609)"
      by simp
  next
    assume "CONF_UNITS (config_entry self) \<noteq> Some CONF_UNIT_SYSTEM_IMPERIAL"
    with d u show "distance (state (WazeTravelTimeData_update ucd engine self)) = Some km"
      by simp
  next
    assume "CONF_UNITS (config_entry self) = Some CONF_UNIT_SYSTEM_IMPERIAL \<and> km = 12"
    with d u have "distance (state (WazeTravelTimeData_update ucd engine self)) = Some (12 / 1.609)"
      by simp
    with a show "\<exists>miles. distance (state (WazeTravelTimeData_update ucd engine self)) = Some miles \<and>
                     \<bar>miles - 7.458\<bar> < 0.0001"
      by (intro exI [of _ "12 / 1.609"] conjI)
  qed
qed

text \<open>The first scenario with imperial and with metric units.\<close>

theorem C6_witness:
  "calls (WazeTravelTimeData_update scenario_ucd scenario_engine
            (scenario_with None None CONF_UNIT_SYSTEM_IMPERIAL)) = [scenario_params] \<and>
   scenario_engine scenario_params = Returns scenario_routes \<and>
   CONF_UNITS (config_entry (scenario_with None None CONF_UNIT_SYSTEM_IMPERIAL)) =
     Some CONF_UNIT_SYSTEM_IMPERIAL \<and>
   distance (state (WazeTravelTimeData_update scenario_ucd scenario_engine
                      (scenario_with None None CONF_UNIT_SYSTEM_IMPERIAL))) =
     Some (12 / 1.609) \<and>
   CONF_UNITS (config_entry (scenario_with None None ''metric'')) \<noteq>
     Some CONF_UNIT_SYSTEM_IMPERIAL \<and>
   distance (state (WazeTravelTimeData_update scenario_ucd scenario_engine
                      (scenario_with None None ''metric''))) = Some 12"
proof -
  let ?i = "scenario_with None None CONF_UNIT_SYSTEM_IMPERIAL"
  let ?m = "scenario_with None None ''metric''"
  have ci: "calls (WazeTravelTimeData_update scenario_ucd scenario_engine ?i) = [scenario_params]"
    and cm: "calls (WazeTravelTimeData_update scenario_ucd scenario_engine ?m) = [scenario_params]"
    by (rule calls_scenario_with)+
  have e: "scenario_engine scenario_params = Returns scenario_routes"
    by (simp add: scenario_engine_def)
  have fi: "filter_routes scenario_ucd (CONF_INCL_FILTER (config_entry ?i))
     (CONF_EXCL_FILTER (config_entry ?i)) scenario_routes =
       (''Route A'', 10, 12) # [(''Route B'', 8, 9)]"
    and fm: "filter_routes scenario_ucd (CONF_INCL_FILTER (config_entry ?m))
     (CONF_EXCL_FILTER (config_entry ?m)) scenario_routes =
       (''Route A'', 10, 12) # [(''Route B'', 8, 9)]"
    by (simp_all add: scenario_with_fields filter_scenario_none scenario_routes_def)
  have ui: "CONF_UNITS (config_entry ?i) = Some CONF_UNIT_SYSTEM_IMPERIAL"
    by (simp add: scenario_with_fields)
  have um: "CONF_UNITS (config_entry ?m) \<noteq> Some CONF_UNIT_SYSTEM_IMPERIAL"
    by (simp add: scenario_with_fields metric_not_imperial)
  from C6_unit_conversion [OF ci e fi] ui
  have 1: "distance (state (WazeTravelTimeData_update scenario_ucd scenario_engine ?i)) = Some (12 / 1.609)"
    by blast
  from C6_unit_conversion [OF cm e fm] um
  have 2: "distance (state (WazeTravelTimeData_update scenario_ucd scenario_engine ?m)) = Some 12"
    by blast
  from ci e ui 1 um 2 show ?thesis
    by (intro conjI) assumption+
qed

section \<open>Nothing left after the filters\<close>

text \<open>
  Claim C8. When the routing call returns a mapping that is not empty and the configured
  filters leave nothing of it, \<^verbatim>\<open>update\<close> logs the warning \<^verbatim>\<open>No routes found\<close> and returns
  with the data object, so its duration, distance and route, unchanged; nothing is raised.
\<close>

theorem C8_empty_after_filter:
  assumes "calls (WazeTravelTimeData_update ucd engine self) = [params]"
    and "engine params = Returns routes"
    and "routes \<noteq> []"
    and "filter_routes ucd (CONF_INCL_FILTER (config_entry self))
           (CONF_EXCL_FILTER (config_entry self)) routes = []"
  shows "WazeTravelTimeData_update ucd engine self =
           \<lparr>state = self, logged = [(WARNING, ''No routes found'')], calls = [params],
            raised = None\<rparr>"
proof -
  from assms(1) obtain units where
      "WazeTravelTimeData_update ucd engine self =
         try_block ucd engine params (CONF_INCL_FILTER (config_entry self))
           (CONF_EXCL_FILTER (config_entry self)) units self"
    by (rule update_called)
  with assms(2,4) show ?thesis by (simp add: try_block_no_routes)
qed

text \<open>The exclude filter \<^verbatim>\<open>ROUTE\<close> drops both routes of the scenarios.\<close>

theorem C8_witness:
  "calls (WazeTravelTimeData_update scenario_ucd scenario_engine
            (scenario_with None (Some ''ROUTE'') ''metric'')) = [scenario_params] \<and>
   scenario_engine scenario_params = Returns scenario_routes \<and>
   scenario_routes \<noteq> [] \<and>
   filter_routes scenario_ucd (CONF_INCL_FILTER (config_entry (scenario_with None (Some ''ROUTE'') ''metric'')))
     (CONF_EXCL_FILTER (config_entry (scenario_with None (Some ''ROUTE'') ''metric'')))
     scenario_routes = [] \<and>
   WazeTravelTimeData_update scenario_ucd scenario_engine (scenario_with None (Some ''ROUTE'') ''metric'') =
     \<lparr>state = scenario_with None (Some ''ROUTE'') ''metric'',
      logged = [(WARNING, ''No routes found'')], calls = [scenario_params], raised = None\<rparr>"
proof -
  let ?s = "scenario_with None (Some ''ROUTE'') ''metric''"
  have c: "calls (WazeTravelTimeData_update scenario_ucd scenario_engine ?s) = [scenario_params]"
    by (rule calls_scenario_with)
  have e: "scenario_engine scenario_params = Returns scenario_routes"
    by (simp add: scenario_engine_def)
  have n: "scenario_routes \<noteq> []"
    by (simp add: scenario_routes_def)
  have f: "filter_routes scenario_ucd (CONF_INCL_FILTER (config_entry ?s))
     (CONF_EXCL_FILTER (config_entry ?s)) scenario_routes = []"
    by (simp add: scenario_with_fields filter_scenario_excl_route)
  from C8_empty_after_filter [OF c e n f] c e n f show ?thesis
    by (intro conjI) assumption+
qed

section \<open>Empty filter strings\<close>

text \<open>
  Claim C10. The empty string occurs in every name. So an empty exclude filter leaves
  nothing of any mapping, whatever the include filter: an \<^verbatim>\<open>update\<close> with it never
  commits, leaves the data object as it is and, whenever the routing call returns a
  mapping, logs the warning \<^verbatim>\<open>No routes found\<close>; over any number of refresh cycles with
  it the reading stays what it was. An empty include filter keeps every route: it
  filters as no include filter does.
\<close>

theorem C10_empty_string_filters:
  "filter_routes ucd incl (Some []) routes = [] \<and>
   filter_routes ucd (Some []) None routes = routes \<and>
   filter_routes ucd (Some []) excl routes = filter_routes ucd None excl routes \<and>
   (CONF_EXCL_FILTER (config_entry self) = Some [] \<longrightarrow>
      state (WazeTravelTimeData_update ucd engine self) = self \<and>
      \<not> committed (WazeTravelTimeData_update ucd engine self) \<and>
      (\<forall>params rs. calls (WazeTravelTimeData_update ucd engine self) = [params] \<and>
          engine params = Returns rs \<longrightarrow>
          logged (WazeTravelTimeData_update ucd engine self) = [(WARNING, ''No routes found'')])) \<and>
   ((\<forall>c \<in> set cycles. CONF_EXCL_FILTER (fst (snd (snd c))) = Some []) \<longrightarrow>
      reading (refresh_cycles ucd self cycles) = reading self)"
proof (intro conjI impI allI)
  show "filter_routes ucd incl (Some []) routes = []"
    by (rule filter_routes_excl_empty)
  show "filter_routes ucd (Some []) None routes = routes"
    by (simp add: filter_routes_incl_empty filter_scenario_none)
  show "filter_routes ucd (Some []) excl routes = filter_routes ucd None excl routes"
    by (rule filter_routes_incl_empty)
  show "reading (refresh_cycles ucd self cycles) = reading self"
    if "\<forall>c \<in> set cycles. CONF_EXCL_FILTER (fst (snd (snd c))) = Some []"
    using that by (rule refresh_cycles_excl_empty)
next
  assume x: "CONF_EXCL_FILTER (config_entry self) = Some []"
  then show "state (WazeTravelTimeData_update ucd engine self) = self"
    by (rule update_excl_empty)
  show "\<not> committed (WazeTravelTimeData_update ucd engine self)"
  proof
    assume "committed (WazeTravelTimeData_update ucd engine self)"
    then obtain rs k d m rest where
      "filter_routes ucd (CONF_INCL_FILTER (config_entry self))
         (CONF_EXCL_FILTER (config_entry self)) rs = (k, d, m) # rest"
      by (rule committedE)
    with x show False by (simp add: filter_routes_excl_empty)
  qed
  fix params rs
  assume "calls (WazeTravelTimeData_update ucd engine self) = [params] \<and> engine params = Returns rs"
  then have c: "calls (WazeTravelTimeData_update ucd engine self) = [params]"
    and e: "engine params = Returns rs" by simp_all
  from c obtain units where
      "WazeTravelTimeData_update ucd engine self =
         try_block ucd engine params (CONF_INCL_FILTER (config_entry self))
           (CONF_EXCL_FILTER (config_entry self)) units self"
    by (rule update_called)
  with x e show "logged (WazeTravelTimeData_update ucd engine self) = [(WARNING, ''No routes found'')]"
    by (simp add: logged_try_block_excl_empty)
qed

text \<open>The theorem at the scenario with the empty exclude filter, over two cycles.\<close>

theorem C10_witness:
  "CONF_EXCL_FILTER (config_entry (scenario_with None (Some []) ''metric'')) = Some [] \<and>
   calls (WazeTravelTimeData_update scenario_ucd scenario_engine (scenario_with None (Some []) ''metric'')) =
     [scenario_params] \<and>
   scenario_engine scenario_params = Returns scenario_routes \<and>
   filter_routes scenario_ucd None (Some []) scenario_routes = [] \<and>
   filter_routes scenario_ucd (Some []) None scenario_routes = scenario_routes \<and>
   state (WazeTravelTimeData_update scenario_ucd scenario_engine (scenario_with None (Some []) ''metric'')) =
     scenario_with None (Some []) ''metric'' \<and>
   logged (WazeTravelTimeData_update scenario_ucd scenario_engine (scenario_with None (Some []) ''metric'')) =
     [(WARNING, ''No routes found'')] \<and>
   CONF_EXCL_FILTER (fst (snd (snd empty_exclude_cycle))) = Some [] \<and>
   reading (refresh_cycles scenario_ucd (scenario_with None (Some []) ''metric'')
              [empty_exclude_cycle, empty_exclude_cycle]) =
     reading (scenario_with None (Some []) ''metric'')"
proof -
  let ?s = "scenario_with None (Some []) ''metric''"
  let ?cs = "[empty_exclude_cycle, empty_exclude_cycle]"
  note t = C10_empty_string_filters [where ucd = scenario_ucd and incl = None and routes = scenario_routes
             and excl = None and self = ?s and engine = scenario_engine and cycles = ?cs]
  have x: "CONF_EXCL_FILTER (config_entry ?s) = Some []"
    by (simp add: scenario_with_fields)
  have c: "calls (WazeTravelTimeData_update scenario_ucd scenario_engine ?s) = [scenario_params]"
    by (rule calls_scenario_with)
  have e: "scenario_engine scenario_params = Returns scenario_routes"
    by (simp add: scenario_engine_def)
  have y: "CONF_EXCL_FILTER (fst (snd (snd empty_exclude_cycle))) = Some []"
    by (simp add: empty_exclude_cycle_def)
  then have b: "\<forall>c \<in> set ?cs. CONF_EXCL_FILTER (fst (snd (snd c))) = Some []"
    by simp
  from t have 1: "filter_routes scenario_ucd None (Some []) scenario_routes = []"
    and 2: "filter_routes scenario_ucd (Some []) None scenario_routes = scenario_routes"
    by blast+
  from t x have 3: "state (WazeTravelTimeData_update scenario_ucd scenario_engine ?s) = ?s"
    by blast
  from t x c e have 4: "logged (WazeTravelTimeData_update scenario_ucd scenario_engine ?s) =
     [(WARNING, ''No routes found'')]"
    by blast
  from t b have 5: "reading (refresh_cycles scenario_ucd ?s ?cs) = reading ?s"
    by blast
  from x c e 1 2 3 4 y 5 show ?thesis
    by (intro conjI) assumption+
qed

section \<open>The reading is written as a whole\<close>

text \<open>
  Claim C2. A new data object has no duration, no distance and no route. After any
  sequence of refresh cycles on it, whatever the locations, the options and the answers
  of the routing engine were, the three fields are all \<^verbatim>\<open>None\<close> or all set. A single
  \<^verbatim>\<open>update\<close> on any data object either leaves the three fields as they were or writes
  all three from one entry of the mapping that the routing call returned.
\<close>

theorem C2_all_or_nothing:
  "all_or_nothing (WazeTravelTimeData_init og ds rg opts) \<and>
   all_or_nothing (refresh_cycles ucd (WazeTravelTimeData_init og ds rg opts) cycles) \<and>
   (reading (state (WazeTravelTimeData_update ucd engine self)) = reading self \<or>
    (\<exists>params routes k d m.
        calls (WazeTravelTimeData_update ucd engine self) = [params] \<and>
        engine params = Returns routes \<and> (k, d, m) \<in> set routes \<and>
        reading (state (WazeTravelTimeData_update ucd engine self)) =
          (Some d,
           Some (if CONF_UNITS (config_entry self) = Some CONF_UNIT_SYSTEM_IMPERIAL
                 then m / 1.609 else m),
           Some k)))"
proof (intro conjI)
  show "all_or_nothing (WazeTravelTimeData_init og ds rg opts)"
    by (rule all_or_nothing_init)
  show "all_or_nothing (refresh_cycles ucd (WazeTravelTimeData_init og ds rg opts) cycles)"
    by (rule all_or_nothing_refresh_cycles [OF all_or_nothing_init])
  from update_state_cases [of ucd engine self]
  show "reading (state (WazeTravelTimeData_update ucd engine self)) = reading self \<or>
    (\<exists>params routes k d m.
        calls (WazeTravelTimeData_update ucd engine self) = [params] \<and>
        engine params = Returns routes \<and> (k, d, m) \<in> set routes \<and>
        reading (state (WazeTravelTimeData_update ucd engine self)) =
          (Some d,
           Some (if CONF_UNITS (config_entry self) = Some CONF_UNIT_SYSTEM_IMPERIAL
                 then m / 1.609 else m),
           Some k))"
  proof
    assume "state (WazeTravelTimeData_update ucd engine self) = self"
    then show ?thesis by simp
  next
    assume "committed (WazeTravelTimeData_update ucd engine self)"
    from committed_reading [OF this] show ?thesis ..
  qed
qed

text \<open>The theorem at the run of five cycles: the reading is the one commit of the run.\<close>

theorem C2_witness:
  "all_or_nothing (WazeTravelTimeData_init None None ''EU'' scenario_options) \<and>
   reading (WazeTravelTimeData_init None None ''EU'' scenario_options) = (None, None, None) \<and>
   all_or_nothing
     (refresh_cycles scenario_ucd (WazeTravelTimeData_init None None ''EU'' scenario_options)
        scenario_cycles) \<and>
   reading (refresh_cycles scenario_ucd (WazeTravelTimeData_init None None ''EU'' scenario_options)
              scenario_cycles) = (Some 10, Some 12, Some ''Route A'')"
proof -
  note t = C2_all_or_nothing [where ucd = scenario_ucd and og = None and ds = None and rg = "''EU''"
             and opts = scenario_options and cycles = scenario_cycles]
  have "reading (WazeTravelTimeData_init None None ''EU'' scenario_options) = (None, None, None)"
    by (simp add: reading_def WazeTravelTimeData_init_def)
  moreover have
    "reading (refresh_cycles scenario_ucd (WazeTravelTimeData_init None None ''EU'' scenario_options)
              scenario_cycles) = (Some 10, Some 12, Some ''Route A'')"
    by (simp add: refresh_cycles_scenario reading_def)
  ultimately show ?thesis using t by blast
qed

section \<open>The published state\<close>

text \<open>
  Claim C9. The native value of the sensor is the stored duration rounded by Python's
  \<^verbatim>\<open>round\<close> when the duration is set, and \<^verbatim>\<open>None\<close> when it is not; the rounded value is
  an integer nearest to the duration (within one half of it, and no integer is nearer).
  The attributes are \<^verbatim>\<open>None\<close> exactly when the duration is \<^verbatim>\<open>None\<close>. On a data object
  that has run any sequence of refresh cycles since its construction, the duration is
  set exactly when one of the cycles committed, that is when a refresh has succeeded.
\<close>

theorem C9_published_state:
  "native_value sensor = map_option py_round (duration (waze_data sensor)) \<and>
   (\<forall>d. duration (waze_data sensor) = Some d \<longrightarrow>
      native_value sensor = Some (py_round d) \<and>
      \<bar>real_of_int (py_round d) - d\<bar> \<le> 1 / 2 \<and>
      (\<forall>k. \<bar>real_of_int (py_round d) - d\<bar> \<le> \<bar>real_of_int k - d\<bar>)) \<and>
   (duration (waze_data sensor) = None \<longrightarrow> native_value sensor = None) \<and>
   (extra_state_attributes sensor = None \<longleftrightarrow> duration (waze_data sensor) = None) \<and>
   (duration (refresh_cycles ucd (WazeTravelTimeData_init og ds rg opts) cycles) \<noteq> None \<longleftrightarrow>
      (\<exists>r \<in> set (refresh_results ucd (WazeTravelTimeData_init og ds rg opts) cycles).
          committed r))"
proof (intro conjI allI impI)
  show "native_value sensor = map_option py_round (duration (waze_data sensor))"
    by (simp add: native_value_def split: option.splits)
  show "extra_state_attributes sensor = None \<longleftrightarrow> duration (waze_data sensor) = None"
    by (simp add: extra_state_attributes_def)
  show "native_value sensor = None" if "duration (waze_data sensor) = None"
    using that by (simp add: native_value_def)
  show "duration (refresh_cycles ucd (WazeTravelTimeData_init og ds rg opts) cycles) \<noteq> None \<longleftrightarrow>
      (\<exists>r \<in> set (refresh_results ucd (WazeTravelTimeData_init og ds rg opts) cycles).
          committed r)"
    by (subst duration_refresh_cycles) (simp add: WazeTravelTimeData_init_def)
next
  fix d assume "duration (waze_data sensor) = Some d"
  then show "native_value sensor = Some (py_round d)"
    by (simp add: native_value_def)
  show "\<bar>real_of_int (py_round d) - d\<bar> \<le> 1 / 2"
    by (rule py_round_half)
  fix k show "\<bar>real_of_int (py_round d) - d\<bar> \<le> \<bar>real_of_int k - d\<bar>"
    by (rule py_round_nearest)
qed

text \<open>
  The theorem at a sensor after the run of five cycles, which commits a duration of 10,
  and at a sensor that has not refreshed yet.
\<close>

theorem C9_witness:
  "duration (waze_data (tracker_sensor\<lparr>waze_data :=
       refresh_cycles scenario_ucd (WazeTravelTimeData_init None None ''EU'' scenario_options)
         scenario_cycles\<rparr>)) = Some 10 \<and>
   native_value (tracker_sensor\<lparr>waze_data :=
       refresh_cycles scenario_ucd (WazeTravelTimeData_init None None ''EU'' scenario_options)
         scenario_cycles\<rparr>) = Some 10 \<and>
   extra_state_attributes (tracker_sensor\<lparr>waze_data :=
       refresh_cycles scenario_ucd (WazeTravelTimeData_init None None ''EU'' scenario_options)
         scenario_cycles\<rparr>) \<noteq> None \<and>
   duration (waze_data tracker_sensor) = None \<and>
   native_value tracker_sensor = None \<and>
   extra_state_attributes tracker_sensor = None"
proof -
  let ?w = "refresh_cycles scenario_ucd (WazeTravelTimeData_init None None ''EU'' scenario_options)
              scenario_cycles"
  let ?s = "tracker_sensor\<lparr>waze_data := ?w\<rparr>"
  have d: "duration (waze_data ?s) = Some 10"
    by (simp add: refresh_cycles_scenario)
  have n: "duration (waze_data tracker_sensor) = None"
    by (simp add: tracker_sensor_def WazeTravelTimeData_init_def)
  have r: "py_round 10 = 10"
    by (simp add: py_round_def)
  from C9_published_state [where ucd = scenario_ucd and sensor = ?s] d r
  have 1: "native_value ?s = Some 10" and 2: "extra_state_attributes ?s \<noteq> None"
    by auto
  from C9_published_state [where sensor = tracker_sensor] n
  have 3: "native_value tracker_sensor = None"
    and 4: "extra_state_attributes tracker_sensor = None"
    by auto
  from d 1 2 n 3 4 show ?thesis by (intro conjI) assumption+
qed

section \<open>Absent locations\<close>

text \<open>
  Claim C7 has every refresh with an absent origin or destination be a silent no-op,
  also when the referenced entity has no state. The guard of
  \<^verbatim>\<open>WazeTravelTimeData.update\<close> gives the no-op for an absent location
  (\<open>update_noop\<close>, \<open>WazeTravelTime_update_noop\<close>). The sensor's \<^verbatim>\<open>update\<close> does not
  get there from a source entity: whatever \<^verbatim>\<open>find_coordinates\<close> is, it raises
  \<^verbatim>\<open>AttributeError\<close> or leaves an origin that is not \<^verbatim>\<open>None\<close>
  (\<open>WazeTravelTime_update_origin_entity\<close>). In scenario 5, the sensor with the origin
  entity \<^verbatim>\<open>device_tracker.phone\<close> on a host where that entity has no state: the
  \<^verbatim>\<open>update\<close> logs its debug record and \<^verbatim>\<open>AttributeError\<close> escapes it, from
  \<^verbatim>\<open>hass.states.get(...).state\<close>; no routing call is made and the sensor is unchanged.
\<close>

theorem C7_entity_without_state_raises:
  "origin_entity_id tracker_sensor = Some ''device_tracker.phone'' \<and>
   states empty_hass ''device_tracker.phone'' = None \<and>
   find_coordinates empty_hass ''device_tracker.phone'' = None \<and>
   WazeTravelTime_update scenario_ucd find_coordinates empty_hass scenario_engine tracker_sensor =
     \<lparr>state = tracker_sensor, logged = [(DEBUG, ''Fetching Route for Waze Travel Time'')],
      calls = [], raised = Some AttributeError\<rparr>"
  by (simp add: WazeTravelTime_update_def resolve_location_def find_coordinates_def
        empty_hass_def tracker_sensor_def)

end
